theory Spec2Isabelle
  imports Main
begin

text \<open>
  The Neural Salvage service: accounts and API keys (\<open>auth.js\<close>), validation of a soul
  payload (\<open>schema.js\<close>), retrieval and listing (\<open>salvage.js\<close>), revival
  (\<open>revival.js\<close>), verification of a payment (\<open>payments.js\<close>) and the request
  handlers of the server. The functions of the JavaScript runtime they call come first:
  strings, JSON values and \<open>JSON.stringify\<close>, regular expressions, dates. The clock,
  random bytes, identifiers, the SHA-256 digest, the Arweave client and \<open>JSON.parse\<close>
  are inputs of the operations that use them.
\<close>

section \<open>JavaScript strings\<close>

text \<open>
  A JavaScript string is a sequence of UTF-16 code units; a code unit is modelled as a
  natural number. \<open>js\<close> turns an ASCII literal into such a sequence.
\<close>

type_synonym jsstring = "nat list"

definition js :: "string \<Rightarrow> jsstring" where
  "js s = map of_char s"

definition startsWith :: "jsstring \<Rightarrow> jsstring \<Rightarrow> bool" where
  "startsWith s p = (take (length p) s = p)"

text \<open>\<open>String.prototype.includes\<close>: the pattern occurs at some index.\<close>

fun str_includes :: "jsstring \<Rightarrow> jsstring \<Rightarrow> bool" where
  "str_includes [] p = (p = [])"
| "str_includes (c # cs) p = (startsWith (c # cs) p \<or> str_includes cs p)"

text \<open>
  \<open>String.prototype.toLowerCase\<close> on the ASCII letters. Code units above 127 are left
  as they are: the Unicode case tables are not part of the embedding, so the model decides
  the case-insensitive comparison of two names exactly when they differ in ASCII letters only.
\<close>

definition lower_unit :: "nat \<Rightarrow> nat" where
  "lower_unit c = (if 65 \<le> c \<and> c \<le> 90 then c + 32 else c)"

definition toLowerCase :: "jsstring \<Rightarrow> jsstring" where
  "toLowerCase s = map lower_unit s"

text \<open>\<open>Array.prototype.join\<close> on strings.\<close>

fun join :: "jsstring \<Rightarrow> jsstring list \<Rightarrow> jsstring" where
  "join sep [] = []"
| "join sep [x] = x"
| "join sep (x # y # ys) = x @ sep @ join sep (y # ys)"

text \<open>
  Decimal digits of a natural number, and \<open>Number.prototype.toString\<close> on an integer
  that a number holds exactly (it is applied to the safe integers only).
\<close>

fun decimal :: "nat \<Rightarrow> jsstring" where
  "decimal n = (if n < 10 then [48 + n] else decimal (n div 10) @ [48 + n mod 10])"

declare decimal.simps [simp del]

definition numToString :: "int \<Rightarrow> jsstring" where
  "numToString i = (if i < 0 then 45 # decimal (nat (- i)) else decimal (nat i))"

definition hexdigit :: "nat \<Rightarrow> nat" where
  "hexdigit d = (if d < 10 then 48 + d else 87 + d)"

definition hex2 :: "nat \<Rightarrow> jsstring" where
  "hex2 b = [hexdigit (b div 16 mod 16), hexdigit (b mod 16)]"

definition hex4 :: "nat \<Rightarrow> jsstring" where
  "hex4 c = hex2 (c div 256) @ hex2 (c mod 256)"

definition is_lead :: "nat \<Rightarrow> bool" where
  "is_lead c = (55296 \<le> c \<and> c \<le> 56319)"

definition is_trail :: "nat \<Rightarrow> bool" where
  "is_trail c = (56320 \<le> c \<and> c \<le> 57343)"

text \<open>
  \<open>Buffer.byteLength(s)\<close>: the length of the UTF-8 encoding. A surrogate pair is one
  code point of four bytes; a lone surrogate is encoded as U+FFFD, three bytes.
\<close>

fun byteLength :: "jsstring \<Rightarrow> nat" where
  "byteLength [] = 0"
| "byteLength (c # cs) =
     (if c < 128 then 1 + byteLength cs
      else if c < 2048 then 2 + byteLength cs
      else if is_lead c then
        (case cs of
           [] \<Rightarrow> 3
         | d # ds \<Rightarrow> if is_trail d then 4 + byteLength ds else 3 + byteLength cs)
      else 3 + byteLength cs)"

section \<open>Errors\<close>

text \<open>
  A thrown value, as the \<open>catch\<close> blocks read it: an optional \<open>type\<close> (the Arweave
  client sets one) and an optional \<open>message\<close>. \<open>new Error(m)\<close> has a message only.
\<close>

record js_error =
  err_type :: "jsstring option"
  message :: "jsstring option"

definition Error :: "jsstring \<Rightarrow> js_error" where
  "Error m = \<lparr>err_type = None, message = Some m\<rparr>"

text \<open>
  The TypeErrors of the runtime, with the messages of V8: a property read on \<open>null\<close> or
  \<open>undefined\<close>, and the conversion to a string of an object that has none.
\<close>

definition TypeError_null :: "jsstring \<Rightarrow> js_error" where
  "TypeError_null k =
     Error (js ''Cannot read properties of null (reading '' @ [39] @ k @ [39] @ js '')'')"

definition TypeError_undefined :: "jsstring \<Rightarrow> js_error" where
  "TypeError_undefined k =
     Error (js ''Cannot read properties of undefined (reading '' @ [39] @ k @ [39] @ js '')'')"

definition CANNOT_CONVERT :: js_error where
  "CANNOT_CONVERT = Error (js ''Cannot convert object to primitive value'')"

text \<open>A step that returns or throws, followed by the rest of the computation.\<close>

fun and_then :: "'e + 'a \<Rightarrow> ('a \<Rightarrow> 'e + 'b) \<Rightarrow> 'e + 'b" where
  "and_then (Inl err) f = Inl err"
| "and_then (Inr x) f = f x"

section \<open>JSON values\<close>

text \<open>
  The numbers of the embedding are the safe integers, those between \<open>-(2^53 - 1)\<close> and
  \<open>2^53 - 1\<close>: \<open>JSON.parse\<close> reads the literal of such a number exactly and
  \<open>Number.prototype.toString\<close> prints its decimal digits. A number with a fraction or an
  exponent, or a larger one, is outside the embedding (floating point).
\<close>

typedef safe_integer = "{i :: int. - 9007199254740991 \<le> i \<and> i \<le> 9007199254740991}"
  morphisms int_of Safe_integer
  by (rule exI [of _ 0]) simp

text \<open>
  The values \<open>JSON.parse\<close> produces. An object is the list of its own properties in
  enumeration order. JavaScript's \<open>undefined\<close> is \<open>None\<close> of \<open>json option\<close>.
\<close>

datatype json =
    JNull
  | JBool bool
  | JNum safe_integer
  | JStr jsstring
  | JArr "json list"
  | JObj "(jsstring \<times> json) list"

text \<open>Truthiness (\<open>ToBoolean\<close>).\<close>

fun truthy :: "json \<Rightarrow> bool" where
  "truthy JNull = False"
| "truthy (JBool b) = b"
| "truthy (JNum n) = (int_of n \<noteq> 0)"
| "truthy (JStr s) = (s \<noteq> [])"
| "truthy (JArr xs) = True"
| "truthy (JObj kvs) = True"

fun truthy_opt :: "json option \<Rightarrow> bool" where
  "truthy_opt None = False"
| "truthy_opt (Some v) = truthy v"

text \<open>\<open>v || d\<close>.\<close>

fun or_else :: "json option \<Rightarrow> json \<Rightarrow> json" where
  "or_else None d = d"
| "or_else (Some v) d = (if truthy v then v else d)"

text \<open>
  Property read \<open>v.k\<close> on a value that is neither \<open>null\<close> nor \<open>undefined\<close>, for the
  property names this program reads (none of them is defined on a prototype, an array
  or a string): an own property of an object, \<open>undefined\<close> otherwise. The read on
  \<open>null\<close> raises a TypeError; that is written out at each place where the source does not
  guard it.
\<close>

fun get_prop :: "json \<Rightarrow> jsstring \<Rightarrow> json option" where
  "get_prop (JObj kvs) k = map_of kvs k"
| "get_prop v k = None"

text \<open>Optional chaining \<open>v?.k\<close>.\<close>

fun get_prop_opt :: "json option \<Rightarrow> jsstring \<Rightarrow> json option" where
  "get_prop_opt None k = None"
| "get_prop_opt (Some v) k = get_prop v k"

fun is_JStr :: "json \<Rightarrow> bool" where
  "is_JStr (JStr s) = True"
| "is_JStr v = False"

fun is_JArr :: "json \<Rightarrow> bool" where
  "is_JArr (JArr xs) = True"
| "is_JArr v = False"

text \<open>\<open>typeof v === 'object'\<close> (true of \<open>null\<close>, arrays and objects).\<close>

fun typeof_object :: "json \<Rightarrow> bool" where
  "typeof_object JNull = True"
| "typeof_object (JArr xs) = True"
| "typeof_object (JObj kvs) = True"
| "typeof_object v = False"

text \<open>
  \<open>ToString\<close>, as a template literal applies it. An array is its elements joined by
  commas, with \<open>null\<close> printed as the empty string. An object is \<open>[object Object]\<close>,
  the result of \<open>Object.prototype.toString\<close>, unless it has an own property \<open>toString\<close>:
  that property is a JSON value and cannot be called, \<open>valueOf\<close> gives no primitive
  either, and the conversion throws a TypeError.
\<close>

fun ToString :: "json \<Rightarrow> js_error + jsstring"
  and ToString_elems :: "json list \<Rightarrow> js_error + jsstring list" where
  "ToString JNull = Inr (js ''null'')"
| "ToString (JBool b) = Inr (if b then js ''true'' else js ''false'')"
| "ToString (JNum n) = Inr (numToString (int_of n))"
| "ToString (JStr s) = Inr s"
| "ToString (JArr xs) =
     (case ToString_elems xs of Inl err \<Rightarrow> Inl err | Inr ss \<Rightarrow> Inr (join [44] ss))"
| "ToString (JObj kvs) =
     (if js ''toString'' \<in> set (map fst kvs) then Inl CANNOT_CONVERT
      else Inr (js ''[object Object]''))"
| "ToString_elems [] = Inr []"
| "ToString_elems (x # xs) =
     (case (case x of JNull \<Rightarrow> Inr [] | _ \<Rightarrow> ToString x) of
        Inl err \<Rightarrow> Inl err
      | Inr s \<Rightarrow>
          (case ToString_elems xs of Inl err \<Rightarrow> Inl err | Inr ss \<Rightarrow> Inr (s # ss)))"

fun ToString_opt :: "json option \<Rightarrow> js_error + jsstring" where
  "ToString_opt None = Inr (js ''undefined'')"
| "ToString_opt (Some v) = ToString v"

subsection \<open>\<open>JSON.stringify\<close>\<close>

text \<open>
  \<open>QuoteJSONString\<close>: the two-character escapes, \<open>\<backslash>u00XX\<close> for the other control
  characters and \<open>\<backslash>uDXXX\<close> for a lone surrogate; a surrogate pair is copied.
\<close>

definition unicode_escape :: "nat \<Rightarrow> jsstring" where
  "unicode_escape c = [92, 117] @ hex4 c"

definition quote_unit :: "nat \<Rightarrow> jsstring" where
  "quote_unit c =
     (if c = 8 then [92, 98]
      else if c = 9 then [92, 116]
      else if c = 10 then [92, 110]
      else if c = 12 then [92, 102]
      else if c = 13 then [92, 114]
      else if c = 34 then [92, 34]
      else if c = 92 then [92, 92]
      else if c < 32 then unicode_escape c
      else [c])"

fun quote_body :: "jsstring \<Rightarrow> jsstring" where
  "quote_body [] = []"
| "quote_body (c # cs) =
     (if is_lead c then
        (case cs of
           [] \<Rightarrow> unicode_escape c
         | d # ds \<Rightarrow> if is_trail d then c # d # quote_body ds
                     else unicode_escape c @ quote_body cs)
      else if is_trail c then unicode_escape c @ quote_body cs
      else quote_unit c @ quote_body cs)"

definition QuoteJSONString :: "jsstring \<Rightarrow> jsstring" where
  "QuoteJSONString s = [34] @ quote_body s @ [34]"

text \<open>
  \<open>SerializeJSONProperty\<close> with its \<open>gap\<close> and current \<open>indent\<close>. With an empty gap the
  members are separated by a comma and nothing else; otherwise each member is on a line
  of its own, indented, and a colon is followed by a space.
\<close>

definition wrap :: "jsstring \<Rightarrow> jsstring \<Rightarrow> nat \<Rightarrow> nat \<Rightarrow> jsstring list \<Rightarrow> jsstring" where
  "wrap gap stepback opn cls partial =
     (if partial = [] then [opn, cls]
      else if gap = [] then [opn] @ join [44] partial @ [cls]
      else [opn, 10] @ (stepback @ gap) @ join ([44, 10] @ stepback @ gap) partial
           @ [10] @ stepback @ [cls])"

fun SerializeJSONProperty :: "jsstring \<Rightarrow> jsstring \<Rightarrow> json \<Rightarrow> jsstring"
  and SerializeElements :: "jsstring \<Rightarrow> jsstring \<Rightarrow> json list \<Rightarrow> jsstring list"
  and SerializeMembers :: "jsstring \<Rightarrow> jsstring \<Rightarrow> (jsstring \<times> json) list \<Rightarrow> jsstring list"
  where
  "SerializeJSONProperty gap ind JNull = js ''null''"
| "SerializeJSONProperty gap ind (JBool b) = (if b then js ''true'' else js ''false'')"
| "SerializeJSONProperty gap ind (JNum n) = numToString (int_of n)"
| "SerializeJSONProperty gap ind (JStr s) = QuoteJSONString s"
| "SerializeJSONProperty gap ind (JArr xs) =
     wrap gap ind 91 93 (SerializeElements gap (ind @ gap) xs)"
| "SerializeJSONProperty gap ind (JObj kvs) =
     wrap gap ind 123 125 (SerializeMembers gap (ind @ gap) kvs)"
| "SerializeElements gap ind [] = []"
| "SerializeElements gap ind (x # xs) =
     SerializeJSONProperty gap ind x # SerializeElements gap ind xs"
| "SerializeMembers gap ind [] = []"
| "SerializeMembers gap ind ((k, v) # kvs) =
     (QuoteJSONString k @ [58] @ (if gap = [] then [] else [32])
        @ SerializeJSONProperty gap ind v)
     # SerializeMembers gap ind kvs"

text \<open>\<open>JSON.stringify(v)\<close> and \<open>JSON.stringify(v, null, 2)\<close>.\<close>

definition JSON_stringify :: "json \<Rightarrow> jsstring" where
  "JSON_stringify v = SerializeJSONProperty [] [] v"

definition JSON_stringify_2 :: "json \<Rightarrow> jsstring" where
  "JSON_stringify_2 v = SerializeJSONProperty [32, 32] [] v"

section \<open>Regular expressions\<close>

text \<open>
  The fragment of ECMAScript regular expressions the patterns of \<open>schema.js\<close> use:
  literal code units, classes (ranges, \<open>\<backslash>s\<close>), complemented classes (\<open>\<backslash>S\<close>, the dot),
  sequence, alternation, \<open>*\<close> and a fixed repetition \<open>{n}\<close>; \<open>r+\<close> is \<open>r r*\<close> and
  \<open>r{n,}\<close> is \<open>r{n} r*\<close>. None of them has a back-reference or a look-around, so
  whether a match exists is decided by the language of the expression; the matcher
  works by derivatives.
\<close>

datatype regex =
    Fail
  | Empty
  | Unit nat
  | Class "(nat \<times> nat) list"
  | NotClass "(nat \<times> nat) list"
  | Cat regex regex
  | Or regex regex
  | Many regex
  | Times nat regex

record RegExp =
  pattern :: regex
  ignoreCase :: bool

definition in_ranges :: "nat \<Rightarrow> (nat \<times> nat) list \<Rightarrow> bool" where
  "in_ranges c rs = list_ex (\<lambda>(lo, hi). lo \<le> c \<and> c \<le> hi) rs"

text \<open>
  The \<open>i\<close> flag compares canonicalised code units. The canonical form of an ASCII letter
  is its upper case, and no code unit above 127 has an ASCII canonical form, so an ASCII
  letter of a pattern matches its two cases and nothing else. The case pairs of letters
  above 127 are left out: no pattern of this program has such a letter, and the classes
  of its one pattern with the flag hold no letter at all. \<open>NotClass\<close> is the set of the
  code units outside the ranges, as \<open>\<backslash>S\<close> and the dot are.
\<close>

definition canonicalize :: "nat \<Rightarrow> nat" where
  "canonicalize c = (if 97 \<le> c \<and> c \<le> 122 then c - 32 else c)"

definition swap_case :: "nat \<Rightarrow> nat" where
  "swap_case c =
     (if 97 \<le> c \<and> c \<le> 122 then c - 32 else if 65 \<le> c \<and> c \<le> 90 then c + 32 else c)"

definition unit_matches :: "bool \<Rightarrow> nat \<Rightarrow> nat \<Rightarrow> bool" where
  "unit_matches ic d c = (if ic then canonicalize d = canonicalize c else d = c)"

definition class_matches :: "bool \<Rightarrow> (nat \<times> nat) list \<Rightarrow> nat \<Rightarrow> bool" where
  "class_matches ic rs c = (in_ranges c rs \<or> (ic \<and> in_ranges (swap_case c) rs))"

definition notclass_matches :: "bool \<Rightarrow> (nat \<times> nat) list \<Rightarrow> nat \<Rightarrow> bool" where
  "notclass_matches ic rs c = (\<not> in_ranges c rs \<or> (ic \<and> \<not> in_ranges (swap_case c) rs))"

fun nullable :: "regex \<Rightarrow> bool" where
  "nullable Fail = False"
| "nullable Empty = True"
| "nullable (Unit d) = False"
| "nullable (Class rs) = False"
| "nullable (NotClass rs) = False"
| "nullable (Cat r s) = (nullable r \<and> nullable s)"
| "nullable (Or r s) = (nullable r \<or> nullable s)"
| "nullable (Many r) = True"
| "nullable (Times n r) = (n = 0 \<or> nullable r)"

text \<open>Sequence and alternation that drop a branch which can match nothing.\<close>

fun cat :: "regex \<Rightarrow> regex \<Rightarrow> regex" where
  "cat Fail s = Fail"
| "cat Empty s = s"
| "cat r s = Cat r s"

fun alt :: "regex \<Rightarrow> regex \<Rightarrow> regex" where
  "alt Fail s = s"
| "alt r Fail = r"
| "alt r s = Or r s"

text \<open>The expression for what may follow the code unit \<open>c\<close>.\<close>

fun deriv :: "bool \<Rightarrow> nat \<Rightarrow> regex \<Rightarrow> regex" where
  "deriv ic c Fail = Fail"
| "deriv ic c Empty = Fail"
| "deriv ic c (Unit d) = (if unit_matches ic d c then Empty else Fail)"
| "deriv ic c (Class rs) = (if class_matches ic rs c then Empty else Fail)"
| "deriv ic c (NotClass rs) = (if notclass_matches ic rs c then Empty else Fail)"
| "deriv ic c (Cat r s) =
     (if nullable r then alt (cat (deriv ic c r) s) (deriv ic c s)
      else cat (deriv ic c r) s)"
| "deriv ic c (Or r s) = alt (deriv ic c r) (deriv ic c s)"
| "deriv ic c (Many r) = cat (deriv ic c r) (Many r)"
| "deriv ic c (Times n r) =
     (if n = 0 then Fail else cat (deriv ic c r) (Times (n - 1) r))"

text \<open>
  Some prefix of the string is a match. Once nothing can match any more, the rest of the
  string is not read.
\<close>

fun match_prefix :: "bool \<Rightarrow> regex \<Rightarrow> jsstring \<Rightarrow> bool" where
  "match_prefix ic Fail cs = False"
| "match_prefix ic r [] = nullable r"
| "match_prefix ic r (c # cs) = (nullable r \<or> match_prefix ic (deriv ic c r) cs)"

text \<open>\<open>RegExp.prototype.test\<close> (no \<open>g\<close> or \<open>y\<close> flag): a match starts at some index.\<close>

fun RegExp_test :: "RegExp \<Rightarrow> jsstring \<Rightarrow> bool" where
  "RegExp_test re [] = match_prefix (ignoreCase re) (pattern re) []"
| "RegExp_test re (c # cs) =
     (match_prefix (ignoreCase re) (pattern re) (c # cs) \<or> RegExp_test re cs)"

definition lit :: "string \<Rightarrow> regex" where
  "lit s = foldr (\<lambda>c r. Cat (Unit (of_char c)) r) s Empty"

definition plus :: "regex \<Rightarrow> regex" where
  "plus r = Cat r (Many r)"

definition at_least :: "nat \<Rightarrow> regex \<Rightarrow> regex" where
  "at_least n r = Cat (Times n r) (Many r)"

definition alnum :: "(nat \<times> nat) list" where
  "alnum = [(97, 122), (65, 90), (48, 57)]"

text \<open>The dot matches everything but a line terminator.\<close>

definition dot :: regex where
  "dot = NotClass [(10, 10), (13, 13), (8232, 8233)]"

text \<open>\<open>\<backslash>s\<close>: white space and line terminators.\<close>

definition white_space :: "(nat \<times> nat) list" where
  "white_space = [(9, 13), (32, 32), (160, 160), (5760, 5760), (8192, 8202), (8232, 8233),
     (8239, 8239), (8287, 8287), (12288, 12288), (65279, 65279)]"

section \<open>schema.js: soul payload validation\<close>

definition FORBIDDEN_PATTERNS :: "RegExp list" where
  "FORBIDDEN_PATTERNS =
    [\<lparr>pattern = Cat (lit ''sk-'') (at_least 20 (Class alnum)), ignoreCase = False\<rparr>,
     \<lparr>pattern = Cat (lit ''sk-ant-'') (plus (Class (alnum @ [(45, 45)]))), ignoreCase = False\<rparr>,
     \<lparr>pattern = Cat (lit ''sk-or-'') (plus (Class (alnum @ [(45, 45)]))), ignoreCase = False\<rparr>,
     \<lparr>pattern = Cat (lit ''ghp_'') (Times 36 (Class alnum)), ignoreCase = False\<rparr>,
     \<lparr>pattern = Cat (lit ''gho_'') (Times 36 (Class alnum)), ignoreCase = False\<rparr>,
     \<lparr>pattern = Cat (lit ''xai-'') (plus (Class alnum)), ignoreCase = False\<rparr>,
     \<lparr>pattern = Cat (lit ''AIzaSy'') (Times 33 (Class (alnum @ [(95, 95), (45, 45)]))),
        ignoreCase = False\<rparr>,
     \<lparr>pattern = Cat (lit ''-----BEGIN'') (Cat (Many dot) (lit ''PRIVATE KEY'')),
        ignoreCase = False\<rparr>,
     \<lparr>pattern = Cat (lit ''password'') (Cat (Many (Class white_space))
          (Cat (Class [(58, 58), (61, 61)]) (Cat (Many (Class white_space))
            (plus (NotClass white_space))))),
        ignoreCase = True\<rparr>]"

definition NOT_OBJECT_ERROR :: jsstring where
  "NOT_OBJECT_ERROR = js ''Soul must be a JSON object''"

definition IDENTITY_MISSING_ERROR :: jsstring where
  "IDENTITY_MISSING_ERROR =
     js ''Soul must include an \"identity\" object (at minimum { name: \"...\" })''"

definition NAME_REQUIRED_ERROR :: jsstring where
  "NAME_REQUIRED_ERROR = js ''identity.name is required''"

definition SECRET_WARNING :: jsstring where
  "SECRET_WARNING =
     [9888, 65039] @
     js '' BLOCKED: Payload contains what looks like a secret/credential. Neural Salvage stores data permanently on a public blockchain '' @
     [8212] @
     js '' never include API keys, passwords, or private keys. Remove the sensitive data and try again.''"

text \<open>
  \<open>(sizeBytes / 1_048_576).toFixed(1)\<close>. The quotient by a power of two is exact, and
  \<open>toFixed(1)\<close> takes the nearest number of tenths, the larger one on a tie.
\<close>

definition toFixed1_MB :: "nat \<Rightarrow> jsstring" where
  "toFixed1_MB sizeBytes =
     (let n = (sizeBytes * 20 + 1048576) div 2097152
      in decimal (n div 10) @ [46] @ decimal (n mod 10))"

definition TOO_LARGE_ERROR :: "nat \<Rightarrow> jsstring" where
  "TOO_LARGE_ERROR sizeBytes =
     js ''Payload too large: '' @ toFixed1_MB sizeBytes @ js ''MB (max 100MB)''"

text \<open>
  The loop over the patterns: the first pattern that matches pushes the warning and
  leaves the loop.
\<close>

fun scan_patterns :: "RegExp list \<Rightarrow> jsstring \<Rightarrow> jsstring list \<Rightarrow> jsstring list" where
  "scan_patterns [] serialized errors = errors"
| "scan_patterns (p # ps) serialized errors =
     (if RegExp_test p serialized then errors @ [SECRET_WARNING]
      else scan_patterns ps serialized errors)"

text \<open>\<open>Object.keys\<close> of an object or an array.\<close>

fun Object_keys :: "json \<Rightarrow> jsstring list" where
  "Object_keys (JObj kvs) = map fst kvs"
| "Object_keys (JArr xs) = map decimal [0..<length xs]"
| "Object_keys v = []"

record payload_info =
  size_bytes :: nat
  fields' :: "jsstring list"
  has_memory :: bool
  has_personality :: bool
  has_tools :: bool
  has_files :: bool

text \<open>
  The result of the validator. The early return for a value that is no object has
  \<open>valid\<close> and \<open>errors\<close> only, the other fields are \<open>info\<close>.
\<close>

record validation =
  valid :: bool
  errors :: "jsstring list"
  info :: "payload_info option"

definition identity_errors :: "json \<Rightarrow> jsstring list" where
  "identity_errors soul =
     (if \<not> truthy_opt (get_prop soul (js ''identity'')) then [IDENTITY_MISSING_ERROR]
      else if \<not> truthy_opt (get_prop_opt (get_prop soul (js ''identity'')) (js ''name''))
        then [NAME_REQUIRED_ERROR]
      else [])"

definition size_errors :: "nat \<Rightarrow> jsstring list" where
  "size_errors sizeBytes =
     (if sizeBytes > 104857600 then [TOO_LARGE_ERROR sizeBytes] else [])"

definition has_files_flag :: "json \<Rightarrow> bool" where
  "has_files_flag soul =
     (case get_prop soul (js ''files'') of
        Some (JArr fs) \<Rightarrow> length fs > 0
      | _ \<Rightarrow> False)"

definition validateSoulPayload :: "json option \<Rightarrow> validation" where
  "validateSoulPayload arg =
     (case arg of
        None \<Rightarrow> \<lparr>valid = False, errors = [NOT_OBJECT_ERROR], info = None\<rparr>
      | Some soul \<Rightarrow>
          if \<not> truthy soul \<or> \<not> typeof_object soul
          then \<lparr>valid = False, errors = [NOT_OBJECT_ERROR], info = None\<rparr>
          else
            let errors1 = identity_errors soul;
                serialized = JSON_stringify soul;
                errors2 = scan_patterns FORBIDDEN_PATTERNS serialized errors1;
                sizeBytes = byteLength serialized;
                errors3 = errors2 @ size_errors sizeBytes
            in \<lparr>valid = (length errors3 = 0),
                errors = errors3,
                info = Some \<lparr>size_bytes = sizeBytes,
                  fields' = Object_keys soul,
                  has_memory = truthy_opt (get_prop soul (js ''memory'')),
                  has_personality = truthy_opt (get_prop soul (js ''personality'')),
                  has_tools = truthy_opt (get_prop soul (js ''tools'')),
                  has_files = has_files_flag soul\<rparr>\<rparr>)"

section \<open>Time\<close>

text \<open>
  A \<open>Date\<close> is an instant, in milliseconds since the epoch. The program stores the
  result of \<open>toISOString()\<close> and reads it back with \<open>new Date(s)\<close>, which gives the
  same instant, so a stored timestamp is modelled as that instant. The calendar fields
  are those of local time; \<open>tz t\<close> is \<open>getTimezoneOffset()\<close> at the instant \<open>t\<close>, in
  minutes. The year and month follow from the day number in the proleptic Gregorian
  calendar.
\<close>

type_synonym instant = int


text \<open>
  Year, month (1 to 12) and day of the month of a day number counted from 1970-01-01.
\<close>

definition civil_from_days :: "int \<Rightarrow> int \<times> int \<times> int" where
  "civil_from_days z0 =
     (let z = z0 + 719468;
          era = z div 146097;
          doe = z - era * 146097;
          yoe = (doe - doe div 1460 + doe div 36524 - doe div 146096) div 365;
          doy = doe - (365 * yoe + yoe div 4 - yoe div 100);
          mp = (5 * doy + 2) div 153;
          dom = doy - (153 * mp + 2) div 5 + 1;
          m = (if mp < 10 then mp + 3 else mp - 9);
          y = yoe + era * 400
      in (if m \<le> 2 then y + 1 else y, m, dom))"



text \<open>\<open>toISOString\<close>, in UTC; a year outside 0 to 9999 is written with a sign and six digits.\<close>

definition pad :: "nat \<Rightarrow> nat \<Rightarrow> jsstring" where
  "pad w n = replicate (w - length (decimal n)) 48 @ decimal n"

definition iso_year :: "int \<Rightarrow> jsstring" where
  "iso_year y =
     (if 0 \<le> y \<and> y \<le> 9999 then pad 4 (nat y)
      else if y < 0 then 45 # pad 6 (nat (- y))
      else 43 # pad 6 (nat y))"

definition toISOString :: "instant \<Rightarrow> jsstring" where
  "toISOString t =
     (let (y, m, dom) = civil_from_days (t div 86400000);
          ms = nat (t mod 86400000)
      in iso_year y @ [45] @ pad 2 (nat m) @ [45] @ pad 2 (nat dom) @ [84] @
         pad 2 (ms div 3600000) @ [58] @ pad 2 (ms div 60000 mod 60) @ [58] @
         pad 2 (ms div 1000 mod 60) @ [46] @ pad 3 (ms mod 1000) @ [90])"

section \<open>auth.js: accounts and API keys\<close>

text \<open>
  An account as \<open>createAccount\<close> writes it; \<open>upgradedAt\<close> and \<open>keyRotatedAt\<close> are
  absent until \<open>upgradeTier\<close> and \<open>rotateKey\<close> set them. The fields \<open>id\<close>, \<open>name\<close> and
  \<open>type\<close> are \<open>acc_id\<close>, \<open>acc_name\<close> and \<open>acc_type\<close>. Names and types are strings: the
  registration handler asks only for a name that is truthy, and a request whose name is
  no string is outside the embedding.
\<close>

record account =
  acc_id :: jsstring
  acc_name :: jsstring
  acc_type :: jsstring
  description :: json
  metadata :: json
  tier :: jsstring
  apiKeyHash :: jsstring
  salvageCount :: nat
  totalBytes :: nat
  createdAt :: instant
  lastSalvage :: "instant option"
  salvageTxIds :: "jsstring list"
  upgradedAt :: "instant option"
  keyRotatedAt :: "instant option"

text \<open>
  The database is the object of \<open>accounts.json\<close>, keyed by account id: its properties
  in insertion order. \<open>readDb\<close> and \<open>writeDb\<close> read and write the whole of it, so an
  operation takes the database and returns the one it leaves behind; a throw before
  \<open>writeDb\<close> leaves it as it was.
\<close>

type_synonym db = "(jsstring \<times> account) list"

text \<open>
  The assignment \<open>o[k] = v\<close> on an object whose keys are no array indices: an existing
  property keeps its place, a new one goes to the end.
\<close>

fun obj_put :: "jsstring \<Rightarrow> 'a \<Rightarrow> (jsstring \<times> 'a) list \<Rightarrow> (jsstring \<times> 'a) list" where
  "obj_put k v [] = [(k, v)]"
| "obj_put k v ((k', w) # rest) =
     (if k' = k then (k, v) # rest else (k', w) # obj_put k v rest)"

definition Object_values :: "db \<Rightarrow> account list" where
  "Object_values d = map snd d"

text \<open>
  \<open>generateApiKey\<close>: the prefix and the hexadecimal digits of the random bytes, which are
  an input. \<open>hashKey\<close>, the SHA-256 digest in hexadecimal, is a parameter \<open>H\<close> of every
  operation that hashes.
\<close>

definition generateApiKey :: "nat list \<Rightarrow> jsstring" where
  "generateApiKey randomBytes = js ''ns_'' @ concat (map hex2 randomBytes)"

definition ALREADY_EXISTS :: "jsstring \<Rightarrow> jsstring" where
  "ALREADY_EXISTS name = js ''Account \"'' @ name @ js ''\" already exists''"

definition ACCOUNT_NOT_FOUND :: jsstring where
  "ACCOUNT_NOT_FOUND = js ''Account not found''"

record registration =
  reg_name :: jsstring
  reg_type :: jsstring
  reg_description :: "json option"
  reg_metadata :: "json option"

text \<open>
  \<open>createAccount\<close>. The random bytes of the key, the UUID and the clock are inputs. The
  result is the new record together with the plaintext key, or the error thrown; the
  second component is the database afterwards.
\<close>

definition createAccount ::
  "(jsstring \<Rightarrow> jsstring) \<Rightarrow> nat list \<Rightarrow> jsstring \<Rightarrow> instant \<Rightarrow> registration \<Rightarrow> db
    \<Rightarrow> (js_error + account \<times> jsstring) \<times> db" where
  "createAccount H randomBytes uuid now r d =
     (case find (\<lambda>a. toLowerCase (acc_name a) = toLowerCase (reg_name r)) (Object_values d) of
        Some existing \<Rightarrow> (Inl (Error (ALREADY_EXISTS (reg_name r))), d)
      | None \<Rightarrow>
          let apiKey = generateApiKey randomBytes;
              a = \<lparr>acc_id = uuid,
                   acc_name = reg_name r,
                   acc_type = reg_type r,
                   description = or_else (reg_description r) (JStr []),
                   metadata = or_else (reg_metadata r) (JObj []),
                   tier = js ''free'',
                   apiKeyHash = H apiKey,
                   salvageCount = 0,
                   totalBytes = 0,
                   createdAt = now,
                   lastSalvage = None,
                   salvageTxIds = [],
                   upgradedAt = None,
                   keyRotatedAt = None\<rparr>
          in (Inr (a, apiKey), obj_put uuid a d))"

definition authenticate :: "(jsstring \<Rightarrow> jsstring) \<Rightarrow> jsstring \<Rightarrow> db \<Rightarrow> account option" where
  "authenticate H apiKey d =
     (if apiKey = [] \<or> \<not> startsWith apiKey (js ''ns_'') then None
      else find (\<lambda>a. apiKeyHash a = H apiKey) (Object_values d))"

definition getAccount :: "jsstring \<Rightarrow> db \<Rightarrow> account option" where
  "getAccount ident d = map_of d ident"

definition recordSalvage ::
  "instant \<Rightarrow> jsstring \<Rightarrow> jsstring \<Rightarrow> nat \<Rightarrow> db \<Rightarrow> (js_error + account) \<times> db" where
  "recordSalvage now accountId txId sizeBytes d =
     (case map_of d accountId of
        None \<Rightarrow> (Inl (Error ACCOUNT_NOT_FOUND), d)
      | Some a \<Rightarrow>
          let a' = a\<lparr>salvageCount := salvageCount a + 1,
                     totalBytes := totalBytes a + sizeBytes,
                     lastSalvage := Some now,
                     salvageTxIds := salvageTxIds a @ [txId]\<rparr>
          in (Inr a', obj_put accountId a' d))"

definition upgradeTier ::
  "instant \<Rightarrow> jsstring \<Rightarrow> jsstring \<Rightarrow> db \<Rightarrow> (js_error + account) \<times> db" where
  "upgradeTier now accountId newTier d =
     (case map_of d accountId of
        None \<Rightarrow> (Inl (Error ACCOUNT_NOT_FOUND), d)
      | Some a \<Rightarrow>
          let a' = a\<lparr>tier := newTier, upgradedAt := Some now\<rparr>
          in (Inr a', obj_put accountId a' d))"

definition rotateKey ::
  "(jsstring \<Rightarrow> jsstring) \<Rightarrow> nat list \<Rightarrow> instant \<Rightarrow> jsstring \<Rightarrow> db
    \<Rightarrow> (js_error + jsstring) \<times> db" where
  "rotateKey H randomBytes now accountId d =
     (case map_of d accountId of
        None \<Rightarrow> (Inl (Error ACCOUNT_NOT_FOUND), d)
      | Some a \<Rightarrow>
          let newKey = generateApiKey randomBytes;
              a' = a\<lparr>apiKeyHash := H newKey, keyRotatedAt := Some now\<rparr>
          in (Inr newKey, obj_put accountId a' d))"

section \<open>payments.js: verification of a crypto payment\<close>

text \<open>
  The world the payment operations act on: the account database and the console.
  \<open>verifyPayment\<close> writes one line to the console and returns its acknowledgment; the
  payment id and the signature are the values of the request body. The line is a
  template over the two values: when one of them has no string conversion the template
  throws, before anything is written or returned.
\<close>

record world =
  accounts :: db
  console :: "jsstring list"

definition verifyPayment :: "json \<Rightarrow> json \<Rightarrow> world \<Rightarrow> (js_error + json) \<times> world" where
  "verifyPayment paymentId txSignature w =
     (case ToString paymentId of
        Inl err \<Rightarrow> (Inl err, w)
      | Inr id_text \<Rightarrow>
          (case ToString txSignature of
             Inl err \<Rightarrow> (Inl err, w)
           | Inr tx_text \<Rightarrow>
               (Inr (JObj [(js ''payment_id'', paymentId),
                      (js ''tx_signature'', txSignature),
                      (js ''status'', JStr (js ''pending_review'')),
                      (js ''message'',
                         JStr (js ''Payment recorded. Manual verification in progress '' @
                           [8212] @ js '' your account will be upgraded within 24 hours.'')),
                      (js ''note'', JStr (js ''Automated on-chain verification coming soon.''))]),
                w\<lparr>console := console w @
                   [js ''[Payment] Verification request: '' @ id_text @ js '' | TX: '' @
                    tx_text]\<rparr>)))"

section \<open>salvage.js: reading from Arweave\<close>

text \<open>
  What \<open>retrieveSalvage\<close> calls: \<open>transactions.getData\<close> of the Arweave client,
  \<open>JSON.parse\<close>, and \<open>transactions.get\<close> with the decoded name and value of each tag.
  Each of them returns or throws.
\<close>

record gateway =
  getData :: "jsstring \<Rightarrow> js_error + jsstring"
  JSON_parse :: "jsstring \<Rightarrow> js_error + json"
  get_tags :: "jsstring \<Rightarrow> js_error + (jsstring \<times> jsstring) list"

definition is_demo_id :: "jsstring \<Rightarrow> bool" where
  "is_demo_id txId = startsWith txId (js ''demo-'')"

definition arweave_url :: "jsstring \<Rightarrow> jsstring" where
  "arweave_url txId = js ''https://arweave.net/'' @ txId"

text \<open>The object the \<open>forEach\<close> over the tags builds.\<close>

definition tags_object :: "(jsstring \<times> jsstring) list \<Rightarrow> json" where
  "tags_object ts = JObj (foldl (\<lambda>acc (k, v). obj_put k (JStr v) acc) [] ts)"

text \<open>The body of the \<open>try\<close> block.\<close>

definition fetch_salvage :: "gateway \<Rightarrow> jsstring \<Rightarrow> js_error + json" where
  "fetch_salvage g txId =
     (case getData g txId of
        Inl err \<Rightarrow> Inl err
      | Inr data \<Rightarrow>
          (case JSON_parse g data of
             Inl err \<Rightarrow> Inl err
           | Inr payload \<Rightarrow>
               (case get_tags g txId of
                  Inl err \<Rightarrow> Inl err
                | Inr ts \<Rightarrow>
                    Inr (JObj [(js ''status'', JStr (js ''found'')),
                               (js ''tx_id'', JStr txId),
                               (js ''arweave_url'', JStr (arweave_url txId)),
                               (js ''tags'', tags_object ts),
                               (js ''payload'', payload)]))))"

text \<open>The test of the \<open>catch\<close> block: \<open>err.message?.includes\<close> is false without a message.\<close>

definition is_not_found :: "js_error \<Rightarrow> bool" where
  "is_not_found err =
     (err_type err = Some (js ''TX_NOT_FOUND'') \<or>
      (case message err of None \<Rightarrow> False | Some m \<Rightarrow> str_includes m (js ''not found'')))"

definition SALVAGE_NOT_FOUND :: "jsstring \<Rightarrow> jsstring" where
  "SALVAGE_NOT_FOUND txId = js ''Salvage not found: '' @ txId"

definition retrieveSalvage :: "gateway \<Rightarrow> jsstring \<Rightarrow> js_error + json" where
  "retrieveSalvage g txId =
     (if is_demo_id txId then
        Inr (JObj [(js ''status'', JStr (js ''demo'')),
                   (js ''message'', JStr (js ''This is a demo salvage '' @ [8212] @
                      js '' no data was written to Arweave'')),
                   (js ''tx_id'', JStr txId)])
      else
        (case fetch_salvage g txId of
           Inr found \<Rightarrow> Inr found
         | Inl err \<Rightarrow>
             if is_not_found err then Inl (Error (SALVAGE_NOT_FOUND txId)) else Inl err))"

text \<open>
  \<open>Array.prototype.slice(start, end)\<close> on integers: a negative index counts from the
  end, and both are clamped to the array.
\<close>

definition slice :: "int \<Rightarrow> int \<Rightarrow> 'a list \<Rightarrow> 'a list" where
  "slice start fin xs =
     (let len = int (length xs);
          k = (if start < 0 then max (len + start) 0 else min start len);
          final = (if fin < 0 then max (len + fin) 0 else min fin len)
      in take (nat (final - k)) (drop (nat k) xs))"

definition salvage_item :: "jsstring \<Rightarrow> json" where
  "salvage_item txId =
     JObj [(js ''tx_id'', JStr txId),
           (js ''arweave_url'', if is_demo_id txId then JNull else JStr (arweave_url txId)),
           (js ''is_demo'', JBool (is_demo_id txId))]"

record listing =
  salvages :: "json list"
  total :: nat
  limit :: int
  offset :: int

text \<open>
  \<open>listSalvages\<close>. The identifiers are stored in the order \<open>recordSalvage\<close> pushed them,
  oldest first.
\<close>

definition listSalvages :: "jsstring \<Rightarrow> int \<Rightarrow> int \<Rightarrow> db \<Rightarrow> js_error + listing" where
  "listSalvages accountId lim off d =
     (case getAccount accountId d of
        None \<Rightarrow> Inl (Error ACCOUNT_NOT_FOUND)
      | Some account \<Rightarrow>
          let txIds = salvageTxIds account;
              page = rev (slice off (off + lim) txIds)
          in Inr \<lparr>salvages = map salvage_item page,
                  total = length txIds,
                  limit = lim,
                  offset = off\<rparr>)"

section \<open>revival.js: projections of a salvaged soul\<close>

definition file_entry :: "json \<Rightarrow> json \<Rightarrow> json" where
  "file_entry p c = JObj [(js ''path'', p), (js ''content'', c)]"

text \<open>
  The content of \<open>IDENTITY.md\<close>: a string identity as it is, otherwise the template over
  the name and, when it is truthy, the description.
\<close>

definition identity_content :: "json \<Rightarrow> js_error + jsstring" where
  "identity_content idn =
     (case idn of
        JStr s \<Rightarrow> Inr s
      | _ \<Rightarrow>
          and_then (ToString_opt (get_prop idn (js ''name''))) (\<lambda>name_text.
          and_then
            (if truthy_opt (get_prop idn (js ''description''))
             then and_then (ToString_opt (get_prop idn (js ''description'')))
                    (\<lambda>d. Inr (js ''Description: '' @ d @ [10]))
             else Inr [])
            (\<lambda>description_line.
          Inr (js ''# Identity'' @ [10, 10] @ js ''Name: '' @ name_text @ [10] @
               description_line))))"

definition identity_files :: "json \<Rightarrow> js_error + json list" where
  "identity_files soul =
     (case get_prop soul (js ''identity'') of
        None \<Rightarrow> Inr []
      | Some idn \<Rightarrow>
          if truthy idn
          then and_then (identity_content idn)
                 (\<lambda>c. Inr [file_entry (JStr (js ''IDENTITY.md'')) (JStr c)])
          else Inr [])"

text \<open>A string as it is, anything else through \<open>JSON.stringify(v, null, 2)\<close>.\<close>

definition string_or_json :: "json \<Rightarrow> jsstring" where
  "string_or_json v = (case v of JStr s \<Rightarrow> s | _ \<Rightarrow> JSON_stringify_2 v)"

definition personality_files :: "json \<Rightarrow> json list" where
  "personality_files soul =
     (case get_prop soul (js ''personality'') of
        None \<Rightarrow> []
      | Some p \<Rightarrow>
          if truthy p then [file_entry (JStr (js ''SOUL.md'')) (JStr (string_or_json p))]
          else [])"

text \<open>
  The \<open>forEach\<close> over the daily logs, entry by entry: reading \<open>log.date\<close> of a \<open>null\<close>
  entry throws, and so does the template of the path for a date without a string
  conversion; the files pushed so far are lost with the call.
\<close>

definition daily_log_entry :: "json \<Rightarrow> js_error + json list" where
  "daily_log_entry log =
     (case log of
        JNull \<Rightarrow> Inl (TypeError_null (js ''date''))
      | _ \<Rightarrow>
          (case (get_prop log (js ''date''), get_prop log (js ''content'')) of
             (Some date, Some content) \<Rightarrow>
               if truthy date \<and> truthy content
               then and_then (ToString date)
                      (\<lambda>d. Inr [file_entry (JStr (js ''memory/'' @ d @ js ''.md'')) content])
               else Inr []
           | _ \<Rightarrow> Inr []))"

fun daily_log_files :: "json list \<Rightarrow> js_error + json list" where
  "daily_log_files [] = Inr []"
| "daily_log_files (log # logs) =
     (case daily_log_entry log of
        Inl err \<Rightarrow> Inl err
      | Inr fs \<Rightarrow>
          (case daily_log_files logs of
             Inl err \<Rightarrow> Inl err
           | Inr rest \<Rightarrow> Inr (fs @ rest)))"

definition memory_files :: "json \<Rightarrow> js_error + json list" where
  "memory_files soul =
     (case get_prop soul (js ''memory'') of
        None \<Rightarrow> Inr []
      | Some m \<Rightarrow>
          if \<not> truthy m then Inr []
          else
            (case m of
               JStr s \<Rightarrow> Inr [file_entry (JStr (js ''MEMORY.md'')) m]
             | _ \<Rightarrow>
                 let long_term =
                       (case get_prop m (js ''long_term'') of
                          None \<Rightarrow> []
                        | Some lt \<Rightarrow>
                            if truthy lt then [file_entry (JStr (js ''MEMORY.md'')) lt] else [])
                 in (case get_prop m (js ''daily_logs'') of
                       Some (JArr logs) \<Rightarrow>
                         (case daily_log_files logs of
                            Inl err \<Rightarrow> Inl err
                          | Inr fs \<Rightarrow> Inr (long_term @ fs))
                     | _ \<Rightarrow> Inr long_term)))"

definition tools_files :: "json \<Rightarrow> json list" where
  "tools_files soul =
     (case get_prop soul (js ''tools'') of
        None \<Rightarrow> []
      | Some t \<Rightarrow>
          if truthy t then [file_entry (JStr (js ''TOOLS.md'')) (JStr (string_or_json t))]
          else [])"

definition config_files :: "json \<Rightarrow> json list" where
  "config_files soul =
     (case get_prop soul (js ''config'') of
        None \<Rightarrow> []
      | Some c \<Rightarrow>
          if truthy c then [file_entry (JStr (js ''config.json'')) (JStr (JSON_stringify_2 c))]
          else [])"

text \<open>The \<open>forEach\<close> over the caller's own files; a \<open>null\<close> entry throws here too.\<close>

definition extra_file_entry :: "json \<Rightarrow> js_error + json list" where
  "extra_file_entry f =
     (case f of
        JNull \<Rightarrow> Inl (TypeError_null (js ''path''))
      | _ \<Rightarrow>
          (case (get_prop f (js ''path''), get_prop f (js ''content'')) of
             (Some path, Some content) \<Rightarrow>
               if truthy path \<and> truthy content then Inr [file_entry path content] else Inr []
           | _ \<Rightarrow> Inr []))"

fun extra_files :: "json list \<Rightarrow> js_error + json list" where
  "extra_files [] = Inr []"
| "extra_files (f # fs) =
     (case extra_file_entry f of
        Inl err \<Rightarrow> Inl err
      | Inr out \<Rightarrow>
          (case extra_files fs of
             Inl err \<Rightarrow> Inl err
           | Inr rest \<Rightarrow> Inr (out @ rest)))"

definition additional_files :: "json \<Rightarrow> js_error + json list" where
  "additional_files soul =
     (case get_prop soul (js ''files'') of
        Some (JArr fs) \<Rightarrow> extra_files fs
      | _ \<Rightarrow> Inr [])"

text \<open>
  \<open>soulToFiles\<close>, called with a soul that is truthy: the files of the identity, the
  personality, the memory, the tools, the configuration and the caller's own, in this
  order. The first step that throws ends the call.
\<close>

definition soulToFiles :: "json \<Rightarrow> js_error + json list" where
  "soulToFiles soul =
     and_then (identity_files soul) (\<lambda>ident.
     and_then (memory_files soul) (\<lambda>mem.
     and_then (additional_files soul) (\<lambda>extra.
     Inr (ident @ personality_files soul @ mem @ tools_files soul @ config_files soul @
          extra))))"

definition suggested_structure :: json where
  "suggested_structure =
     JObj [(js ''SOUL.md'', JStr (js ''Personality and behavior'')),
           (js ''IDENTITY.md'', JStr (js ''Name, description, emoji'')),
           (js ''MEMORY.md'', JStr (js ''Long-term curated memory'')),
           (js ''TOOLS.md'', JStr (js ''Environment and capabilities'')),
           (js ''USER.md'', JStr (js ''Info about the human'')),
           (js ''memory/'', JStr (js ''Daily logs (YYYY-MM-DD.md)'')),
           (js ''AGENTS.md'', JStr (js ''Operating instructions'')),
           (js ''BOOTSTRAP.md'', JStr (js ''Session startup ritual''))]"

definition soulToOpenClawWorkspace :: "json \<Rightarrow> js_error + json" where
  "soulToOpenClawWorkspace soul =
     (case soulToFiles soul of
        Inl err \<Rightarrow> Inl err
      | Inr files \<Rightarrow>
          Inr (JObj [(js ''files'', JArr files),
                     (js ''suggested_structure'', suggested_structure)]))"

text \<open>
  \<open>soul.identity?.k || 'Unknown'\<close> inside the template, converted to a string.
\<close>

definition identity_or_unknown :: "json \<Rightarrow> jsstring \<Rightarrow> js_error + jsstring" where
  "identity_or_unknown soul k =
     ToString (or_else (get_prop_opt (get_prop soul (js ''identity'')) k) (JStr (js ''Unknown'')))"

definition getBootstrapInstructions :: "json \<Rightarrow> js_error + jsstring" where
  "getBootstrapInstructions soul =
     and_then (identity_or_unknown soul (js ''name'')) (\<lambda>name_text.
     and_then (identity_or_unknown soul (js ''platform'')) (\<lambda>platform_text.
     and_then (identity_or_unknown soul (js ''salvaged_at'')) (\<lambda>salvaged_text.
     Inr (
     js ''# Revival Bootstrap'' @
     [10, 10] @
     js ''This agent was revived from Neural Salvage (Arweave permanent storage).'' @
     [10, 10] @
     js ''## Steps:'' @
     [10] @
     js ''1. Write all files from the '' @
     [39] @
     js ''files'' @
     [39] @
     js '' array to your workspace'' @
     [10] @
     js ''2. Read SOUL.md to restore personality'' @
     [10] @
     js ''3. Read MEMORY.md to restore long-term knowledge'' @
     [10] @
     js ''4. Read IDENTITY.md to restore name and identity'' @
     [10] @
     js ''5. You are now revived. Your soul persists.'' @
     [10, 10] @
     js ''## Original Identity'' @
     [10] @
     js ''- Name: '' @ name_text @
     [10] @
     js ''- Platform: '' @ platform_text @
     [10] @
     js ''- Salvaged: '' @ salvaged_text @
     [10, 10] @
     js ''## Note'' @
     [10] @
     js ''Your API keys, credentials, and secrets were NOT salvaged (by design).'' @
     [10] @
     js ''You'' @
     [39] @
     js ''ll need your human to provide those again.'' @
     [10]))))"

definition getDemoSoul :: json where
  "getDemoSoul =
     JObj [(js ''identity'',
              JObj [(js ''name'', JStr (js ''Demo Agent'')),
                    (js ''description'', JStr (js ''A demonstration revival''))]),
           (js ''memory'',
              JObj [(js ''long_term'',
                 JStr (js ''# Memory'' @ [10, 10] @
                   js ''This is a demo revival. No real state was stored.''))]),
           (js ''personality'', JStr (js ''# Soul'' @ [10, 10] @ js ''Demo personality.''))]"

definition INVALID_SOUL :: jsstring where
  "INVALID_SOUL = js ''Salvage does not contain a valid soul''"

text \<open>
  A property of an object literal, left out when its value is \<open>undefined\<close> (as the JSON
  response leaves it out).
\<close>

fun optional_field :: "jsstring \<Rightarrow> json option \<Rightarrow> (jsstring \<times> json) list" where
  "optional_field k None = []"
| "optional_field k (Some v) = [(k, v)]"

text \<open>The spread \<open>{...data, k: v, ...}\<close>: the properties of \<open>data\<close>, then the new ones.\<close>

fun spread :: "json \<Rightarrow> (jsstring \<times> json) list \<Rightarrow> json" where
  "spread (JObj kvs) new = JObj (foldl (\<lambda>acc (k, v). obj_put k v acc) kvs new)"
| "spread v new = JObj new"

text \<open>
  \<open>reviveFromSalvage\<close>. The identifier is a string; the format is any value of the
  request.
\<close>

definition reviveFromSalvage :: "gateway \<Rightarrow> jsstring \<Rightarrow> json \<Rightarrow> js_error + json" where
  "reviveFromSalvage g txId format =
     (case retrieveSalvage g txId of
        Inl err \<Rightarrow> Inl err
      | Inr data \<Rightarrow>
          if get_prop data (js ''status'') = Some (JStr (js ''demo''))
          then Inr (spread data [(js ''soul'', getDemoSoul), (js ''format'', format)])
          else
            let soul_opt = get_prop_opt (get_prop data (js ''payload'')) (js ''soul'');
                metadata_field =
                  optional_field (js ''metadata'')
                    (get_prop_opt (get_prop data (js ''payload'')) (js ''metadata''))
            in (case soul_opt of
                  None \<Rightarrow> Inl (Error INVALID_SOUL)
                | Some soul \<Rightarrow>
                    if \<not> truthy soul then Inl (Error INVALID_SOUL)
                    else if format = JStr (js ''files'') then
                      (case soulToFiles soul of
                         Inl err \<Rightarrow> Inl err
                       | Inr files \<Rightarrow>
                           Inr (JObj ([(js ''tx_id'', JStr txId),
                                       (js ''format'', JStr (js ''files'')),
                                       (js ''files'', JArr files)] @ metadata_field)))
                    else if format = JStr (js ''openclaw'') then
                      (case soulToOpenClawWorkspace soul of
                         Inl err \<Rightarrow> Inl err
                       | Inr workspace \<Rightarrow>
                           (case getBootstrapInstructions soul of
                              Inl err \<Rightarrow> Inl err
                            | Inr instructions \<Rightarrow>
                                Inr (JObj ([(js ''tx_id'', JStr txId),
                                            (js ''format'', JStr (js ''openclaw'')),
                                            (js ''workspace'', workspace),
                                            (js ''bootstrap_instructions'',
                                               JStr instructions)] @
                                           metadata_field))))
                    else
                      Inr (JObj ([(js ''tx_id'', JStr txId),
                                  (js ''format'', JStr (js ''structured'')),
                                  (js ''soul'', soul)] @ metadata_field))))"

section \<open>The server: middleware and request handlers\<close>

text \<open>
  What a handler answers: a status and a JSON body. A throw inside a \<open>catch\<close> block
  leaves the request without an answer.
\<close>

datatype outcome = Response nat json | Unhandled js_error

definition error_body :: "jsstring \<Rightarrow> json" where
  "error_body m = JObj [(js ''error'', JStr m)]"

text \<open>\<open>String.prototype.replace\<close> with a string pattern: the first occurrence only.\<close>

fun replace_first :: "jsstring \<Rightarrow> jsstring \<Rightarrow> jsstring \<Rightarrow> jsstring" where
  "replace_first pat rep [] = (if pat = [] then rep else [])"
| "replace_first pat rep (c # cs) =
     (if startsWith (c # cs) pat then rep @ drop (length pat) (c # cs)
      else c # replace_first pat rep cs)"

text \<open>
  \<open>requireAuth\<close>, given the \<open>Authorization\<close> header: the account of the request, or the
  answer that ends it.
\<close>

definition requireAuth ::
  "(jsstring \<Rightarrow> jsstring) \<Rightarrow> jsstring option \<Rightarrow> db \<Rightarrow> outcome + account" where
  "requireAuth H authorization d =
     (case authorization of
        None \<Rightarrow>
          Inl (Response 401 (JObj [(js ''error'', JStr (js ''Missing API key'')),
            (js ''hint'', JStr (js ''Set Authorization: Bearer <your-api-key>''))]))
      | Some header \<Rightarrow>
          let key = replace_first (js ''Bearer '') [] header
          in if key = [] then
               Inl (Response 401 (JObj [(js ''error'', JStr (js ''Missing API key'')),
                 (js ''hint'', JStr (js ''Set Authorization: Bearer <your-api-key>''))]))
             else
               (case authenticate H key d of
                  None \<Rightarrow> Inl (Response 401 (error_body (js ''Invalid API key'')))
                | Some account \<Rightarrow> Inr account))"

text \<open>The answer of a \<open>catch\<close> block that reports \<open>err.message\<close> with status 500.\<close>

definition internal_error :: "js_error \<Rightarrow> outcome" where
  "internal_error err = Response 500 (JObj (optional_field (js ''error'') (map_option JStr (message err))))"

subsection \<open>Registration\<close>

definition SAVE_YOUR_KEY :: jsstring where
  "SAVE_YOUR_KEY = [9888, 65039] @ js '' SAVE YOUR API KEY! It cannot be recovered.''"

definition post_register ::
  "(jsstring \<Rightarrow> jsstring) \<Rightarrow> nat list \<Rightarrow> jsstring \<Rightarrow> instant \<Rightarrow> registration \<Rightarrow> db
    \<Rightarrow> outcome \<times> db" where
  "post_register H randomBytes uuid now r d =
     (if reg_name r = [] then (Response 400 (error_body (js ''Name is required'')), d)
      else if reg_type r = [] \<or> reg_type r \<notin> set [js ''agent'', js ''human'']
        then (Response 400 (error_body (js ''Type must be \"agent\" or \"human\"'')), d)
      else
        (case createAccount H randomBytes uuid now r d of
           (Inr (account, apiKey), d') \<Rightarrow>
             (Response 201
                (JObj [(js ''success'', JBool True),
                       (js ''account'',
                          JObj [(js ''id'', JStr (acc_id account)),
                                (js ''name'', JStr (acc_name account)),
                                (js ''type'', JStr (acc_type account)),
                                (js ''api_key'', JStr apiKey),
                                (js ''tier'', JStr (tier account)),
                                (js ''created_at'', JStr (toISOString (createdAt account)))]),
                       (js ''important'', JStr SAVE_YOUR_KEY)]),
              d')
         | (Inl err, d') \<Rightarrow>
             (case message err of
                None \<Rightarrow>
                  (Unhandled (TypeError_undefined (js ''includes'')), d')
              | Some m \<Rightarrow>
                  if str_includes m (js ''already exists'')
                  then (Response 409 (error_body m), d')
                  else (Response 500 (error_body m), d'))))"

subsection \<open>Submission: the checks before the upload\<close>







subsection \<open>Retrieval and revival\<close>

definition get_salvage :: "gateway \<Rightarrow> jsstring \<Rightarrow> outcome" where
  "get_salvage g txId =
     (case retrieveSalvage g txId of
        Inr result \<Rightarrow> Response 200 (spread (JObj [(js ''success'', JBool True)])
          (case result of JObj kvs \<Rightarrow> kvs | _ \<Rightarrow> []))
      | Inl err \<Rightarrow>
          (case message err of
             None \<Rightarrow> Unhandled (TypeError_undefined (js ''includes''))
           | Some m \<Rightarrow>
               if str_includes m (js ''not found'')
               then Response 404 (error_body (js ''Salvage not found''))
               else Response 500 (error_body m)))"

definition post_revive :: "gateway \<Rightarrow> jsstring \<Rightarrow> json option \<Rightarrow> outcome" where
  "post_revive g tx_id format =
     (if tx_id = [] then Response 400 (error_body (js ''Missing tx_id''))
      else
        (case reviveFromSalvage g tx_id (or_else format (JStr (js ''structured''))) of
           Inr result \<Rightarrow> Response 200 (spread (JObj [(js ''success'', JBool True)])
             (case result of JObj kvs \<Rightarrow> kvs | _ \<Rightarrow> []))
         | Inl err \<Rightarrow> internal_error err))"

subsection \<open>Verification of a crypto payment\<close>

definition post_payments_verify ::
  "(jsstring \<Rightarrow> jsstring) \<Rightarrow> jsstring option \<Rightarrow> json option \<Rightarrow> json option \<Rightarrow> world
    \<Rightarrow> outcome \<times> world" where
  "post_payments_verify H authorization payment_id tx_signature w =
     (case requireAuth H authorization (accounts w) of
        Inl answer \<Rightarrow> (answer, w)
      | Inr account \<Rightarrow>
          (case (payment_id, tx_signature) of
             (Some p, Some t) \<Rightarrow>
               if truthy p \<and> truthy t then
                 (case verifyPayment p t w of
                    (Inr result, w') \<Rightarrow>
                      (Response 200 (spread (JObj [(js ''success'', JBool True)])
                         (case result of JObj kvs \<Rightarrow> kvs | _ \<Rightarrow> [])), w')
                  | (Inl err, w') \<Rightarrow> (internal_error err, w'))
               else (Response 400 (error_body (js ''Missing payment_id or tx_signature'')), w)
           | _ \<Rightarrow> (Response 400 (error_body (js ''Missing payment_id or tx_signature'')), w)))"

section \<open>Notions of the specification\<close>

text \<open>
  Two names are equal up to ASCII case when they have the same length and, position by
  position, the same code unit or the two cases of one ASCII letter.
\<close>

definition ascii_case_eq :: "jsstring \<Rightarrow> jsstring \<Rightarrow> bool" where
  "ascii_case_eq s t =
     list_all2 (\<lambda>c d. c = d \<or> (65 \<le> c \<and> c \<le> 90 \<and> d = c + 32)
                            \<or> (65 \<le> d \<and> d \<le> 90 \<and> c = d + 32)) s t"



text \<open>
  The page of a listing in the words of the specification: the identifiers ordered
  newest first, then the page at \<open>offset\<close> of length at most \<open>limit\<close>.
\<close>

definition newest_first_page :: "int \<Rightarrow> int \<Rightarrow> jsstring list \<Rightarrow> jsstring list" where
  "newest_first_page lim off txIds = slice off (off + lim) (rev txIds)"


text \<open>The arrays the two \<open>forEach\<close> loops of \<open>soulToFiles\<close> visit.\<close>

definition visited_logs :: "json \<Rightarrow> json list" where
  "visited_logs soul =
     (case get_prop soul (js ''memory'') of
        None \<Rightarrow> []
      | Some m \<Rightarrow>
          if truthy m \<and> \<not> is_JStr m then
            (case get_prop m (js ''daily_logs'') of Some (JArr logs) \<Rightarrow> logs | _ \<Rightarrow> [])
          else [])"

definition visited_files :: "json \<Rightarrow> json list" where
  "visited_files soul =
     (case get_prop soul (js ''files'') of Some (JArr fs) \<Rightarrow> fs | _ \<Rightarrow> [])"

section \<open>Example data\<close>

text \<open>
  A stand-in for the digest in the examples (it is injective), two accounts with their
  keys, and the random bytes of a third key.
\<close>

definition sample_hash :: "jsstring \<Rightarrow> jsstring" where
  "sample_hash k = rev k"

definition alice_key :: jsstring where
  "alice_key = generateApiKey
    [165, 77, 202, 24, 37, 48, 187, 29, 109, 19, 44, 222, 214, 35, 123, 46, 217,
     30, 63, 114, 31, 203, 25, 113, 23, 68, 148, 214, 73, 60, 157, 92]"

definition bob_key :: jsstring where
  "bob_key = generateApiKey
    [52, 96, 190, 49, 32, 30, 105, 254, 218, 160, 238, 232, 185, 153, 127, 92,
     124, 41, 153, 253, 175, 229, 147, 37, 60, 214, 84, 175, 77, 250, 215, 20]"

definition fresh_bytes :: "nat list" where
  "fresh_bytes =
    [39, 160, 174, 179, 254, 233, 35, 47, 138, 242, 33, 31, 158, 228, 145, 197,
     177, 11, 236, 181, 86, 59, 252, 30, 111, 147, 66, 126, 203, 200, 254, 41]"

definition alice_id :: jsstring where
  "alice_id = js ''6f1c2a9e-3b7d-4c58-9a10-2e4d8b7c5f31''"

definition bob_id :: jsstring where
  "bob_id = js ''c84e0b52-7a16-4d3f-b9e2-51f0a6d37c08''"

definition carol_id :: jsstring where
  "carol_id = js ''0d9b6e73-41c5-4f8a-8b26-e7a3c19f504d''"

text \<open>
  Alice is on the free tier and made her one submission, in demo mode, on
  2026-01-31 at 12:00 UTC. Bob is on the pro tier with three archives, \<open>tx1\<close> the oldest.
\<close>

definition tx1 :: jsstring where
  "tx1 = js ''V5zjR3j1twdTKWTddB-XhkAS1voQG6yyzyN9zHYIa4U''"

definition tx2 :: jsstring where
  "tx2 = js ''OrGNATMuDJawTgsu8PO-799nKSNrh9UCauSDmLhuVtc''"

definition tx3 :: jsstring where
  "tx3 = js ''qcYezdZ_tDDj8hYs5suKcNd8Zra9A9sKPxZ9W3qLy7z''"

definition alice :: account where
  "alice =
     \<lparr>acc_id = alice_id, acc_name = js ''Alice'', acc_type = js ''agent'',
      description = JStr [], metadata = JObj [], tier = js ''free'',
      apiKeyHash = sample_hash alice_key, salvageCount = 1, totalBytes = 212,
      createdAt = 1767225600000, lastSalvage = Some 1769860800000,
      salvageTxIds = [js ''demo-1769860800000-6f1c2a9e''],
      upgradedAt = None, keyRotatedAt = None\<rparr>"

definition bob :: account where
  "bob =
     \<lparr>acc_id = bob_id, acc_name = js ''Bob'', acc_type = js ''human'',
      description = JStr (js ''keeps three archives''), metadata = JObj [],
      tier = js ''pro'',
      apiKeyHash = sample_hash bob_key, salvageCount = 3, totalBytes = 4096,
      createdAt = 1767225600000, lastSalvage = Some 1769860800000,
      salvageTxIds = [tx1, tx2, tx3],
      upgradedAt = Some 1767312000000, keyRotatedAt = None\<rparr>"

definition sample_db :: db where
  "sample_db = [(alice_id, alice), (bob_id, bob)]"

definition sample_keys :: "jsstring \<Rightarrow> jsstring" where
  "sample_keys k = (if k = alice_id then alice_key else bob_key)"

text \<open>Carol is the account a registration made on 2026-02-01 creates from the fresh bytes.\<close>

definition carol :: account where
  "carol =
     \<lparr>acc_id = carol_id, acc_name = js ''Carol'', acc_type = js ''human'',
      description = JStr [], metadata = JObj [], tier = js ''free'',
      apiKeyHash = sample_hash (generateApiKey fresh_bytes), salvageCount = 0, totalBytes = 0,
      createdAt = 1769904000000, lastSalvage = None, salvageTxIds = [],
      upgradedAt = None, keyRotatedAt = None\<rparr>"


text \<open>
  A store that holds no transaction (every lookup throws the client's error of type
  \<open>TX_NOT_FOUND\<close>, whose message is empty), and a store whose every transaction is a JSON
  document without a soul.
\<close>

definition tx_not_found :: js_error where
  "tx_not_found = \<lparr>err_type = Some (js ''TX_NOT_FOUND''), message = Some []\<rparr>"

definition empty_store :: gateway where
  "empty_store =
     \<lparr>getData = (\<lambda>txId. Inl tx_not_found),
      JSON_parse = (\<lambda>data. Inl (Error (js ''Unexpected end of JSON input''))),
      get_tags = (\<lambda>txId. Inl tx_not_found)\<rparr>"

definition foreign_store :: gateway where
  "foreign_store =
     \<lparr>getData = (\<lambda>txId. Inr (js ''{\"hello\":\"world\"}'')),
      JSON_parse = (\<lambda>data. Inr (JObj [(js ''hello'', JStr (js ''world''))])),
      get_tags = (\<lambda>txId. Inr [(js ''Content-Type'', js ''application/json'')])\<rparr>"

definition demo_id :: jsstring where
  "demo_id = js ''demo-1769860800000-6f1c2a9e''"


definition soul_with_secrets :: json where
  "soul_with_secrets =
     JObj [(js ''identity'', JObj [(js ''name'', JStr (js ''Echo''))]),
           (js ''memory'', JStr (js ''key sk-ant-api03-Zx9 and password = hunter2''))]"

definition soul_without_identity :: json where
  "soul_without_identity = JObj [(js ''personality'', JStr (js ''calm''))]"

definition soul_without_name :: json where
  "soul_without_name =
     JObj [(js ''identity'', JObj [(js ''description'', JStr (js ''nameless''))])]"




text \<open>
  A payment id as a request body can carry it, \<open>{"toString": 1}\<close>: an object, so truthy,
  whose own \<open>toString\<close> is not a function.
\<close>

definition unprintable :: json where
  "unprintable = JObj [(js ''toString'', JNum (Safe_integer 1))]"

section \<open>Properties\<close>

subsection \<open>Objects and strings\<close>

lemma map_of_obj_put_same: "map_of (obj_put k v d) k = Some v"
  by (induction d) auto

lemma set_obj_put:
  "distinct (map fst d) \<Longrightarrow>
   set (obj_put k v d) = insert (k, v) {(k', w). (k', w) \<in> set d \<and> k' \<noteq> k}"
proof (induction d)
  case Nil
  then show ?case by simp
next
  case (Cons p d)
  obtain k' w where p: "p = (k', w)" by (cases p)
  show ?case
  proof (cases "k' = k")
    case True
    with Cons.prems p have "k \<notin> fst ` set d" by simp
    then have "{(k', w). (k', w) \<in> set d \<and> k' \<noteq> k} = set d" by force
    with True p show ?thesis by auto
  next
    case False
    with Cons p show ?thesis by auto
  qed
qed

lemma find_unique:
  assumes "x \<in> set xs" and "P x" and "\<forall>y \<in> set xs. P y \<longrightarrow> y = x"
  shows "find P xs = Some x"
  using assms
proof (induction xs)
  case Nil
  then show ?case by simp
next
  case (Cons z zs)
  show ?case
  proof (cases "P z")
    case True
    with Cons.prems(3) have "z = x" by simp
    with True show ?thesis by simp
  next
    case False
    with Cons.prems have "x \<in> set zs" by auto
    moreover from Cons.prems(3) have "\<forall>y \<in> set zs. P y \<longrightarrow> y = x" by simp
    ultimately have "find P zs = Some x" using Cons.IH Cons.prems(2) by blast
    with False show ?thesis by simp
  qed
qed

lemma image_fresh: "x \<notin> f ` A \<Longrightarrow> k \<in> A \<Longrightarrow> f k \<noteq> x"
  by blast

lemma startsWith_append: "startsWith (p @ ys) p"
  by (simp add: startsWith_def)

lemma str_includes_self_prefix: "str_includes (p @ ys) p"
proof (cases "p @ ys")
  case Nil
  then show ?thesis by simp
next
  case (Cons a list)
  have "startsWith (p @ ys) p" by (rule startsWith_append)
  then show ?thesis using Cons by simp
qed

lemma str_includes_append: "str_includes (xs @ p @ ys) p"
proof (induction xs)
  case Nil
  show ?case using str_includes_self_prefix by simp
next
  case (Cons x xs)
  then show ?case by simp
qed

lemma ascii_case_eq_toLowerCase: "ascii_case_eq s t \<Longrightarrow> toLowerCase s = toLowerCase t"
  unfolding ascii_case_eq_def toLowerCase_def
  by (induction s t rule: list_all2_induct) (auto simp: lower_unit_def)

lemma generateApiKey_nonempty: "generateApiKey rb \<noteq> []"
proof -
  have "js ''ns_'' \<noteq> []" by (simp add: js_def)
  then show ?thesis unfolding generateApiKey_def by simp
qed

lemma generateApiKey_prefix: "startsWith (generateApiKey rb) (js ''ns_'')"
  unfolding generateApiKey_def by (rule startsWith_append)

subsection \<open>The example data\<close>

lemma alice_key_eq:
  "alice_key = js ''ns_a54dca182530bb1d6d132cded6237b2ed91e3f721fcb1971174494d6493c9d5c''"
  by (simp add: alice_key_def generateApiKey_def hex2_def hexdigit_def js_def)

lemma ids_distinct: "alice_id \<noteq> bob_id" "alice_id \<noteq> carol_id" "bob_id \<noteq> carol_id"
  by (simp_all add: alice_id_def bob_id_def carol_id_def js_def)

subsection \<open>Registration\<close>

lemma find_duplicate:
  assumes "(k, a) \<in> set d" and "toLowerCase (acc_name a) = toLowerCase n"
  shows "\<exists>b. find (\<lambda>a. toLowerCase (acc_name a) = toLowerCase n) (Object_values d) = Some b"
proof -
  have "a \<in> set (Object_values d)" using assms(1) by (force simp: Object_values_def)
  then have "find (\<lambda>a. toLowerCase (acc_name a) = toLowerCase n) (Object_values d) \<noteq> None"
    using assms(2) by (auto simp: find_None_iff)
  then show ?thesis by auto
qed

lemma already_exists_includes: "str_includes (ALREADY_EXISTS n) (js ''already exists'')"
  unfolding ALREADY_EXISTS_def
  using str_includes_append [of "js ''Account \"'' @ n @ js ''\" ''" "js ''already exists''" "[]"]
  by (simp add: js_def)

text \<open>
  C7. When the name of a registration equals, up to ASCII case, the name of an account
  in the store, \<open>createAccount\<close> throws the "already exists" error and leaves the store as
  it was; the registration handler, for a request that passes its field checks (a name,
  and a type that is \<open>agent\<close> or \<open>human\<close>), answers 409 with that message, and the store
  is unchanged.
\<close>

theorem createAccount_duplicate_conflict:
  assumes "(k, a) \<in> set d" and "ascii_case_eq (acc_name a) (reg_name r)"
  shows "createAccount H randomBytes uuid now r d = (Inl (Error (ALREADY_EXISTS (reg_name r))), d)
    \<and> (reg_name r \<noteq> [] \<and> reg_type r \<in> {js ''agent'', js ''human''} \<longrightarrow>
        post_register H randomBytes uuid now r d =
          (Response 409 (error_body (ALREADY_EXISTS (reg_name r))), d))"
proof -
  obtain b where b:
    "find (\<lambda>a. toLowerCase (acc_name a) = toLowerCase (reg_name r)) (Object_values d) = Some b"
    using find_duplicate [OF assms(1) ascii_case_eq_toLowerCase [OF assms(2)]] by blast
  have c: "createAccount H randomBytes uuid now r d =
      (Inl (Error (ALREADY_EXISTS (reg_name r))), d)"
    by (simp add: createAccount_def b)
  have "reg_name r \<noteq> [] \<and> reg_type r \<in> {js ''agent'', js ''human''} \<longrightarrow>
        post_register H randomBytes uuid now r d =
          (Response 409 (error_body (ALREADY_EXISTS (reg_name r))), d)"
    using already_exists_includes [of "reg_name r"]
    by (auto simp add: post_register_def c Error_def js_def)
  with c show ?thesis by blast
qed

theorem createAccount_duplicate_conflict_witness:
  "(alice_id, alice) \<in> set sample_db
   \<and> ascii_case_eq (acc_name alice) (js ''ALICE'')
   \<and> createAccount sample_hash fresh_bytes carol_id 1769904000000
        \<lparr>reg_name = js ''ALICE'', reg_type = js ''human'', reg_description = None,
         reg_metadata = None\<rparr> sample_db
      = (Inl (Error (ALREADY_EXISTS (js ''ALICE''))), sample_db)
   \<and> post_register sample_hash fresh_bytes carol_id 1769904000000
        \<lparr>reg_name = js ''ALICE'', reg_type = js ''human'', reg_description = None,
         reg_metadata = None\<rparr> sample_db
      = (Response 409 (error_body (ALREADY_EXISTS (js ''ALICE''))), sample_db)"
proof -
  let ?r = "\<lparr>reg_name = js ''ALICE'', reg_type = js ''human'', reg_description = None,
         reg_metadata = None\<rparr>"
  have h1: "(alice_id, alice) \<in> set sample_db" by (simp add: sample_db_def)
  have h2: "ascii_case_eq (acc_name alice) (reg_name ?r)"
    by (simp add: ascii_case_eq_def alice_def js_def)
  have h3: "reg_name ?r \<noteq> [] \<and> reg_type ?r \<in> {js ''agent'', js ''human''}"
    by (simp add: js_def)
  from createAccount_duplicate_conflict [OF h1 h2, of sample_hash fresh_bytes carol_id 1769904000000]
    h1 h2 h3
  show ?thesis by simp
qed

subsection \<open>A new account\<close>

text \<open>
  C10. An account that \<open>createAccount\<close> creates is on the free tier, with no submission,
  no stored byte, no last-submission timestamp and no archive identifier; the key handed
  to the caller is the generated one, the stored credential is its hash, and the record
  is the one the store holds under the new id.
\<close>

theorem createAccount_initial_state:
  assumes "createAccount H randomBytes uuid now r d = (Inr (a, apiKey), d')"
  shows "tier a = js ''free'' \<and> salvageCount a = 0 \<and> totalBytes a = 0 \<and> lastSalvage a = None
    \<and> salvageTxIds a = [] \<and> apiKey = generateApiKey randomBytes \<and> apiKeyHash a = H apiKey
    \<and> getAccount uuid d' = Some a"
  using assms
  by (auto simp add: createAccount_def getAccount_def map_of_obj_put_same Let_def
      split: option.splits)

theorem createAccount_initial_state_witness:
  "createAccount sample_hash fresh_bytes carol_id 1769904000000
      \<lparr>reg_name = js ''Carol'', reg_type = js ''human'', reg_description = None,
       reg_metadata = None\<rparr> sample_db
     = (Inr (carol, generateApiKey fresh_bytes), sample_db @ [(carol_id, carol)])
   \<and> tier carol = js ''free'' \<and> salvageCount carol = 0 \<and> totalBytes carol = 0
   \<and> lastSalvage carol = None \<and> salvageTxIds carol = []
   \<and> apiKeyHash carol = sample_hash (generateApiKey fresh_bytes)
   \<and> getAccount carol_id (sample_db @ [(carol_id, carol)]) = Some carol"
proof -
  have h: "createAccount sample_hash fresh_bytes carol_id 1769904000000
      \<lparr>reg_name = js ''Carol'', reg_type = js ''human'', reg_description = None,
       reg_metadata = None\<rparr> sample_db
     = (Inr (carol, generateApiKey fresh_bytes), sample_db @ [(carol_id, carol)])"
    using ids_distinct
    by (simp add: createAccount_def Object_values_def sample_db_def alice_def bob_def carol_def
        toLowerCase_def lower_unit_def js_def Let_def)
  from createAccount_initial_state [OF h] h show ?thesis by simp
qed

subsection \<open>Key rotation\<close>

text \<open>
  C8. In a store whose ids are distinct, let every account hold the hash of the key
  issued to it (\<open>keyOf\<close> gives the key of each id), let the issued keys differ from one
  account to the next, let the key that \<open>rotateKey\<close> generates be none of them, and let the
  hash be injective on these keys. Then rotating the key of an existing account returns
  the generated key; afterwards the old key of that account authenticates to no account,
  and the new key authenticates to that account, whose record differs only in the stored
  hash and the rotation time.
\<close>

theorem rotateKey_invalidates_old_key:
  assumes unique_ids: "distinct (map fst d)"
    and found: "map_of d accountId = Some a"
    and hashes: "\<forall>(k, b) \<in> set d. apiKeyHash b = H (keyOf k)"
    and distinct_keys: "inj_on keyOf (fst ` set d)"
    and fresh: "generateApiKey randomBytes \<notin> keyOf ` fst ` set d"
    and inj: "inj_on H (insert (generateApiKey randomBytes) (keyOf ` fst ` set d))"
  shows "fst (rotateKey H randomBytes now accountId d) = Inr (generateApiKey randomBytes)
      \<and> authenticate H (keyOf accountId) (snd (rotateKey H randomBytes now accountId d)) = None
      \<and> authenticate H (generateApiKey randomBytes)
            (snd (rotateKey H randomBytes now accountId d)) =
          Some (a\<lparr>apiKeyHash := H (generateApiKey randomBytes), keyRotatedAt := Some now\<rparr>)"
proof -
  let ?new = "generateApiKey randomBytes"
  let ?a' = "a\<lparr>apiKeyHash := H ?new, keyRotatedAt := Some now\<rparr>"
  let ?d' = "obj_put accountId ?a' d"
  have rot: "rotateKey H randomBytes now accountId d = (Inr ?new, ?d')"
    by (simp add: rotateKey_def found Let_def)
  have mem: "accountId \<in> fst ` set d"
    using found by (force dest: map_of_SomeD)
  have entries: "set ?d' = insert (accountId, ?a') {(k', w). (k', w) \<in> set d \<and> k' \<noteq> accountId}"
    by (rule set_obj_put [OF unique_ids])
  have mem_S: "keyOf k' \<in> insert ?new (keyOf ` fst ` set d)" if "k' \<in> fst ` set d" for k'
    using that by simp
  have new_S: "?new \<in> insert ?new (keyOf ` fst ` set d)" by simp
  have other_old: "apiKeyHash w \<noteq> H (keyOf accountId)" and other_new: "apiKeyHash w \<noteq> H ?new"
    if "(k', w) \<in> set d" "k' \<noteq> accountId" for k' w
  proof -
    have k': "k' \<in> fst ` set d" using that(1) by force
    have hw: "apiKeyHash w = H (keyOf k')" using hashes that(1) by auto
    have "keyOf k' \<noteq> keyOf accountId"
      using that(2) by (simp add: inj_on_eq_iff [OF distinct_keys k' mem])
    then show "apiKeyHash w \<noteq> H (keyOf accountId)"
      by (simp add: hw inj_on_eq_iff [OF inj mem_S [OF k'] mem_S [OF mem]])
    have "keyOf k' \<noteq> ?new" by (rule image_fresh [OF fresh k'])
    then show "apiKeyHash w \<noteq> H ?new"
      by (simp add: hw inj_on_eq_iff [OF inj mem_S [OF k'] new_S])
  qed
  have new_old: "H ?new \<noteq> H (keyOf accountId)"
  proof -
    have "?new \<noteq> keyOf accountId" using image_fresh [OF fresh mem] by simp
    then show ?thesis
      by (simp add: inj_on_eq_iff [OF inj new_S mem_S [OF mem]])
  qed
  have "find (\<lambda>b. apiKeyHash b = H (keyOf accountId)) (Object_values ?d') = None"
    unfolding find_None_iff Object_values_def set_map entries
    using other_old new_old by auto
  then have old: "authenticate H (keyOf accountId) ?d' = None"
    by (simp add: authenticate_def)
  have "find (\<lambda>b. apiKeyHash b = H ?new) (Object_values ?d') = Some ?a'"
  proof (rule find_unique)
    show "?a' \<in> set (Object_values ?d')"
      unfolding Object_values_def set_map entries by force
    show "apiKeyHash ?a' = H ?new" by simp
    show "\<forall>y \<in> set (Object_values ?d'). apiKeyHash y = H ?new \<longrightarrow> y = ?a'"
      unfolding Object_values_def set_map entries using other_new by auto
  qed
  then have new: "authenticate H ?new ?d' = Some ?a'"
    by (simp add: authenticate_def generateApiKey_prefix generateApiKey_nonempty)
  from rot old new show ?thesis by simp
qed

lemma sample_keys_distinct:
  "alice_key \<noteq> bob_key" "generateApiKey fresh_bytes \<noteq> alice_key"
  "generateApiKey fresh_bytes \<noteq> bob_key"
  by (simp_all add: alice_key_def bob_key_def fresh_bytes_def generateApiKey_def hex2_def
      hexdigit_def)

theorem rotateKey_invalidates_old_key_witness:
  "distinct (map fst sample_db)
   \<and> map_of sample_db alice_id = Some alice
   \<and> list_all (\<lambda>(k, b). apiKeyHash b = sample_hash (sample_keys k)) sample_db
   \<and> inj_on sample_keys (fst ` set sample_db)
   \<and> generateApiKey fresh_bytes \<notin> sample_keys ` fst ` set sample_db
   \<and> inj_on sample_hash (insert (generateApiKey fresh_bytes) (sample_keys ` fst ` set sample_db))
   \<and> fst (rotateKey sample_hash fresh_bytes 1769904000000 alice_id sample_db)
        = Inr (generateApiKey fresh_bytes)
   \<and> authenticate sample_hash alice_key
        (snd (rotateKey sample_hash fresh_bytes 1769904000000 alice_id sample_db)) = None
   \<and> authenticate sample_hash (generateApiKey fresh_bytes)
        (snd (rotateKey sample_hash fresh_bytes 1769904000000 alice_id sample_db))
        = Some (alice\<lparr>apiKeyHash := sample_hash (generateApiKey fresh_bytes),
                      keyRotatedAt := Some 1769904000000\<rparr>)"
proof -
  have h1: "distinct (map fst sample_db)"
    using ids_distinct by (simp add: sample_db_def)
  have h2: "map_of sample_db alice_id = Some alice"
    by (simp add: sample_db_def)
  have h3: "\<forall>(k, b) \<in> set sample_db. apiKeyHash b = sample_hash (sample_keys k)"
    using ids_distinct by (simp add: sample_db_def sample_keys_def alice_def bob_def)
  have h4: "inj_on sample_keys (fst ` set sample_db)"
    using ids_distinct sample_keys_distinct by (simp add: sample_db_def sample_keys_def)
  have h5: "generateApiKey fresh_bytes \<notin> sample_keys ` fst ` set sample_db"
    using ids_distinct sample_keys_distinct by (simp add: sample_db_def sample_keys_def)
  have h6: "inj_on sample_hash
      (insert (generateApiKey fresh_bytes) (sample_keys ` fst ` set sample_db))"
    by (rule inj_onI) (simp add: sample_hash_def)
  have k: "sample_keys alice_id = alice_key" by (simp add: sample_keys_def)
  from rotateKey_invalidates_old_key [OF h1 h2 h3 h4 h5 h6, of 1769904000000] h1 h2 h3 h4 h5 h6
  show ?thesis unfolding k list_all_iff by blast
qed

subsection \<open>Verification of a crypto payment\<close>

lemma verifyPayment_frame: "accounts (snd (verifyPayment paymentId txSignature w)) = accounts w"
  by (simp add: verifyPayment_def split: sum.splits)

lemma post_payments_verify_frame:
  "accounts (snd (post_payments_verify H authorization payment_id tx_signature w)) = accounts w"
proof -
  have "accounts (snd (case verifyPayment p t w of
      (Inl err, w') \<Rightarrow> (internal_error err, w')
    | (Inr result, w') \<Rightarrow>
        (Response 200 (spread (JObj [(js ''success'', JBool True)])
           (case result of JObj kvs \<Rightarrow> kvs | _ \<Rightarrow> [])), w'))) = accounts w" for p t
    using verifyPayment_frame [of p t w]
    by (cases "verifyPayment p t w") (auto split: sum.splits)
  then show ?thesis
    by (simp add: post_payments_verify_def split: sum.splits option.splits)
qed

lemma verifyPayment_pending_review:
  assumes "ToString paymentId = Inr id_text" and "ToString txSignature = Inr tx_text"
  shows "\<exists>result. fst (verifyPayment paymentId txSignature w) = Inr result
    \<and> get_prop result (js ''status'') = Some (JStr (js ''pending_review''))
    \<and> get_prop result (js ''payment_id'') = Some paymentId
    \<and> get_prop result (js ''tx_signature'') = Some txSignature"
  using assms by (simp add: verifyPayment_def js_def)

lemma verifyPayment_strings:
  "\<exists>result. fst (verifyPayment (JStr p) (JStr t) w) = Inr result
    \<and> get_prop result (js ''status'') = Some (JStr (js ''pending_review''))"
  using verifyPayment_pending_review [of "JStr p" p "JStr t" t w] by auto

lemma replace_first_prefix: "p \<noteq> [] \<Longrightarrow> replace_first p r (p @ ys) = r @ ys"
  using startsWith_append [of p ys] by (cases p) simp_all

lemma requireAuth_alice:
  "requireAuth sample_hash (Some (js ''Bearer '' @ alice_key)) sample_db = Inr alice"
proof -
  have b: "js ''Bearer '' \<noteq> []" by (simp add: js_def)
  have k: "alice_key \<noteq> []" "startsWith alice_key (js ''ns_'')"
    unfolding alice_key_def by (rule generateApiKey_nonempty, rule generateApiKey_prefix)
  have "authenticate sample_hash alice_key sample_db = Some alice"
    by (simp add: authenticate_def k sample_db_def Object_values_def alice_def)
  then show ?thesis
    by (simp add: requireAuth_def replace_first_prefix [OF b] k)
qed

text \<open>
  C9. A verification request whose payment id is the object \<open>{"toString": 1}\<close> passes
  the check of the handler, since an object is truthy. \<open>verifyPayment\<close> throws on it, in
  the template of its log line, and returns no acknowledgment: the handler answers 500
  with the message of the TypeError, not a status \<open>pending_review\<close>. The console and the
  account store are as they were.
\<close>

theorem verifyPayment_throws_on_unprintable_id:
  "truthy unprintable
   \<and> verifyPayment unprintable (JStr (js ''5VERv8NMvzbJ''))
        \<lparr>accounts = sample_db, console = []\<rparr>
      = (Inl (Error (js ''Cannot convert object to primitive value'')),
         \<lparr>accounts = sample_db, console = []\<rparr>)
   \<and> post_payments_verify sample_hash (Some (js ''Bearer '' @ alice_key))
        (Some unprintable) (Some (JStr (js ''5VERv8NMvzbJ'')))
        \<lparr>accounts = sample_db, console = []\<rparr>
      = (Response 500 (JObj [(js ''error'',
           JStr (js ''Cannot convert object to primitive value''))]),
         \<lparr>accounts = sample_db, console = []\<rparr>)"
proof -
  have t: "truthy unprintable" by (simp add: unprintable_def)
  have t': "js ''5VERv8NMvzbJ'' \<noteq> []" by (simp add: js_def)
  have s: "ToString unprintable = Inl CANNOT_CONVERT" by (simp add: unprintable_def)
  have v: "verifyPayment unprintable txSignature w = (Inl CANNOT_CONVERT, w)" for txSignature w
    by (simp add: verifyPayment_def s)
  have "post_payments_verify sample_hash (Some (js ''Bearer '' @ alice_key))
        (Some unprintable) (Some (JStr (js ''5VERv8NMvzbJ'')))
        \<lparr>accounts = sample_db, console = []\<rparr>
      = (internal_error CANNOT_CONVERT, \<lparr>accounts = sample_db, console = []\<rparr>)"
    by (simp add: post_payments_verify_def requireAuth_alice t t' v)
  with t v show ?thesis
    by (simp add: internal_error_def CANNOT_CONVERT_def Error_def)
qed

subsection \<open>Listing\<close>

text \<open>What \<open>listSalvages\<close> returns for an offset and a limit that are not negative.\<close>

lemma slice_nonneg:
  "0 \<le> off \<Longrightarrow> 0 \<le> lim \<Longrightarrow> slice off (off + lim) xs = take (nat lim) (drop (nat off) xs)"
  by (auto simp add: slice_def Let_def min_def max_def)

lemma listSalvages_page:
  assumes "getAccount accountId d = Some a" and "0 \<le> off" and "0 \<le> lim"
  shows "listSalvages accountId lim off d =
    Inr \<lparr>salvages = map salvage_item (rev (take (nat lim) (drop (nat off) (salvageTxIds a)))),
         total = length (salvageTxIds a), limit = lim, offset = off\<rparr>"
  using assms by (simp add: listSalvages_def slice_nonneg Let_def)

text \<open>
  C2. The first page of two of Bob's three archives holds the two oldest identifiers,
  the newer of them first; the page at offset 0 of the identifiers ordered newest first
  holds the two newest. The total, the limit and the offset are as the claim says.
\<close>

theorem listSalvages_first_page_is_oldest:
  "listSalvages bob_id 2 0 sample_db =
     Inr \<lparr>salvages = map salvage_item [tx2, tx1], total = 3, limit = 2, offset = 0\<rparr>
   \<and> newest_first_page 2 0 (salvageTxIds bob) = [tx3, tx2]
   \<and> map salvage_item [tx2, tx1] \<noteq> map salvage_item [tx3, tx2]"
proof -
  have g: "getAccount bob_id sample_db = Some bob"
    using ids_distinct by (simp add: getAccount_def sample_db_def)
  have "listSalvages bob_id 2 0 sample_db =
     Inr \<lparr>salvages = map salvage_item [tx2, tx1], total = 3, limit = 2, offset = 0\<rparr>"
    by (simp add: listSalvages_page [OF g] bob_def)
  moreover have "newest_first_page 2 0 (salvageTxIds bob) = [tx3, tx2]"
    by (simp add: newest_first_page_def slice_def bob_def)
  moreover have "tx2 \<noteq> tx3" by (simp add: tx2_def tx3_def js_def)
  then have "map salvage_item [tx2, tx1] \<noteq> map salvage_item [tx3, tx2]"
    by (simp add: salvage_item_def)
  ultimately show ?thesis by simp
qed

subsection \<open>The validator\<close>

lemma validate_errors:
  assumes "truthy soul" and "typeof_object soul"
  shows "errors (validateSoulPayload (Some soul)) =
    scan_patterns FORBIDDEN_PATTERNS (JSON_stringify soul) (identity_errors soul)
      @ size_errors (byteLength (JSON_stringify soul))"
  using assms by (simp add: validateSoulPayload_def Let_def)

lemma validate_valid:
  assumes "truthy soul" and "typeof_object soul"
  shows "valid (validateSoulPayload (Some soul)) \<longleftrightarrow> errors (validateSoulPayload (Some soul)) = []"
  using assms by (simp add: validateSoulPayload_def Let_def)

lemma scan_patterns_match:
  "\<exists>p \<in> set ps. RegExp_test p s \<Longrightarrow> scan_patterns ps s e = e @ [SECRET_WARNING]"
  by (induction ps) auto

lemma scan_patterns_no_match:
  "\<not> (\<exists>p \<in> set ps. RegExp_test p s) \<Longrightarrow> scan_patterns ps s e = e"
  by (induction ps) auto

lemma scan_patterns_extends: "\<exists>w. scan_patterns ps s e = e @ w"
  by (cases "\<exists>p \<in> set ps. RegExp_test p s")
    (simp_all add: scan_patterns_match scan_patterns_no_match)

lemma secret_warning_head: "hd SECRET_WARNING = 9888"
  by (simp add: SECRET_WARNING_def)

lemma identity_errors_heads: "e \<in> set (identity_errors soul) \<Longrightarrow> hd e < 128"
  by (auto simp add: identity_errors_def IDENTITY_MISSING_ERROR_def NAME_REQUIRED_ERROR_def
      js_def split: if_splits)

lemma size_errors_heads: "e \<in> set (size_errors n) \<Longrightarrow> hd e < 128"
  by (auto simp add: size_errors_def TOO_LARGE_ERROR_def js_def split: if_splits)

lemma secret_warning_fresh:
  "SECRET_WARNING \<notin> set (identity_errors soul)" "SECRET_WARNING \<notin> set (size_errors n)"
  using identity_errors_heads [of SECRET_WARNING soul] size_errors_heads [of SECRET_WARNING n]
  by (auto simp add: secret_warning_head)

text \<open>
  C3. Let the document be an object or an array whose serialization matches one of the
  forbidden patterns. Then the validator rejects it; its problems are those of the
  identity check, then the one secret warning, then that of the size check, so the
  warning occurs exactly once; and scanning the patterns in any other order gives the
  same problems, whichever pattern is met first.
\<close>

theorem secret_rejected_with_one_warning:
  assumes "truthy soul" and "typeof_object soul"
    and "\<exists>p \<in> set FORBIDDEN_PATTERNS. RegExp_test p (JSON_stringify soul)"
  shows "\<not> valid (validateSoulPayload (Some soul))
    \<and> errors (validateSoulPayload (Some soul)) =
        identity_errors soul @ [SECRET_WARNING] @ size_errors (byteLength (JSON_stringify soul))
    \<and> count_list (errors (validateSoulPayload (Some soul))) SECRET_WARNING = 1
    \<and> (\<forall>ps. set ps = set FORBIDDEN_PATTERNS \<longrightarrow>
          scan_patterns ps (JSON_stringify soul) (identity_errors soul) =
          scan_patterns FORBIDDEN_PATTERNS (JSON_stringify soul) (identity_errors soul))"
proof -
  let ?s = "JSON_stringify soul"
  let ?v = "validateSoulPayload (Some soul)"
  have scan: "scan_patterns ps ?s (identity_errors soul) = identity_errors soul @ [SECRET_WARNING]"
    if "set ps = set FORBIDDEN_PATTERNS" for ps
    using assms(3) that by (simp add: scan_patterns_match)
  have e: "errors ?v = identity_errors soul @ [SECRET_WARNING] @ size_errors (byteLength ?s)"
    by (simp add: validate_errors [OF assms(1,2)] scan)
  have v: "\<not> valid ?v"
    by (simp add: validate_valid [OF assms(1,2)] e)
  have c: "count_list (errors ?v) SECRET_WARNING = 1"
    using secret_warning_fresh(1) [of soul] secret_warning_fresh(2) [of "byteLength ?s"]
    by (simp add: e count_list_0_iff)
  from v e c scan show ?thesis by simp
qed

lemma soul_with_secrets_serialized:
  "JSON_stringify soul_with_secrets =
     js ''{\"identity\":{\"name\":\"Echo\"},\"memory\":\"key sk-ant-api03-Zx9 and password = hunter2\"}''"
  by (simp add: soul_with_secrets_def JSON_stringify_def wrap_def QuoteJSONString_def
      quote_unit_def is_lead_def is_trail_def js_def)

lemmas regexp_simps = FORBIDDEN_PATTERNS_def js_def lit_def at_least_def plus_def alnum_def
  white_space_def dot_def unit_matches_def class_matches_def notclass_matches_def in_ranges_def
  canonicalize_def swap_case_def

lemma soul_with_secrets_matches:
  "\<not> RegExp_test (FORBIDDEN_PATTERNS ! 0) (JSON_stringify soul_with_secrets)"
  "RegExp_test (FORBIDDEN_PATTERNS ! 1) (JSON_stringify soul_with_secrets)"
  "RegExp_test (FORBIDDEN_PATTERNS ! 8) (JSON_stringify soul_with_secrets)"
  unfolding soul_with_secrets_serialized by (simp_all add: regexp_simps)

lemma forbidden_patterns_length: "length FORBIDDEN_PATTERNS = 9"
  by (simp add: FORBIDDEN_PATTERNS_def)

theorem secret_rejected_with_one_warning_witness:
  "truthy soul_with_secrets \<and> typeof_object soul_with_secrets
   \<and> RegExp_test (FORBIDDEN_PATTERNS ! 1) (JSON_stringify soul_with_secrets)
   \<and> RegExp_test (FORBIDDEN_PATTERNS ! 8) (JSON_stringify soul_with_secrets)
   \<and> \<not> valid (validateSoulPayload (Some soul_with_secrets))
   \<and> errors (validateSoulPayload (Some soul_with_secrets)) = [SECRET_WARNING]
   \<and> count_list (errors (validateSoulPayload (Some soul_with_secrets))) SECRET_WARNING = 1
   \<and> scan_patterns (rev FORBIDDEN_PATTERNS) (JSON_stringify soul_with_secrets)
        (identity_errors soul_with_secrets) =
      scan_patterns FORBIDDEN_PATTERNS (JSON_stringify soul_with_secrets)
        (identity_errors soul_with_secrets)"
proof -
  have h1: "truthy soul_with_secrets" and h2: "typeof_object soul_with_secrets"
    by (simp_all add: soul_with_secrets_def)
  have "FORBIDDEN_PATTERNS ! 1 \<in> set FORBIDDEN_PATTERNS"
    by (rule nth_mem) (simp add: forbidden_patterns_length)
  then have h3: "\<exists>p \<in> set FORBIDDEN_PATTERNS. RegExp_test p (JSON_stringify soul_with_secrets)"
    using soul_with_secrets_matches(2) by blast
  have i: "identity_errors soul_with_secrets = []"
    by (simp add: identity_errors_def soul_with_secrets_def js_def)
  have z: "size_errors (byteLength (JSON_stringify soul_with_secrets)) = []"
    unfolding soul_with_secrets_serialized by (simp add: size_errors_def js_def)
  have r: "set (rev FORBIDDEN_PATTERNS) = set FORBIDDEN_PATTERNS" by simp
  note t = secret_rejected_with_one_warning [OF h1 h2 h3]
  from t r have order:
    "scan_patterns (rev FORBIDDEN_PATTERNS) (JSON_stringify soul_with_secrets)
        (identity_errors soul_with_secrets) =
      scan_patterns FORBIDDEN_PATTERNS (JSON_stringify soul_with_secrets)
        (identity_errors soul_with_secrets)"
    by blast
  from t have "\<not> valid (validateSoulPayload (Some soul_with_secrets))"
    and "errors (validateSoulPayload (Some soul_with_secrets)) = [SECRET_WARNING]"
    and "count_list (errors (validateSoulPayload (Some soul_with_secrets))) SECRET_WARNING = 1"
    by (simp_all add: i z)
  with h1 h2 soul_with_secrets_matches(2,3) order show ?thesis by blast
qed

subsection \<open>The identity check\<close>

lemma name_required_mentions: "str_includes NAME_REQUIRED_ERROR (js ''identity.name'')"
  unfolding NAME_REQUIRED_ERROR_def
  using str_includes_append [of "[]" "js ''identity.name''" "js '' is required''"]
  by (simp add: js_def)

lemma identity_missing_does_not_mention:
  "\<not> str_includes IDENTITY_MISSING_ERROR (js ''identity.name'')"
  by (simp add: IDENTITY_MISSING_ERROR_def js_def startsWith_def)

text \<open>
  C4, as the code has it. Let the document be an object or an array in which
  \<open>identity.name\<close> is absent or empty (\<open>identity\<close> itself may be missing). Then the
  validator rejects it, and its first problem is \<open>identity.name is required\<close> when
  \<open>identity\<close> is present and truthy, and the message that asks for an \<open>identity\<close> object
  otherwise. The first of the two texts contains \<open>identity.name\<close>, the second does not.
\<close>

theorem missing_name_rejected:
  assumes "truthy soul" and "typeof_object soul"
    and "\<not> truthy_opt (get_prop_opt (get_prop soul (js ''identity'')) (js ''name''))"
  shows "\<not> valid (validateSoulPayload (Some soul))
    \<and> errors (validateSoulPayload (Some soul)) \<noteq> []
    \<and> hd (errors (validateSoulPayload (Some soul))) =
        (if truthy_opt (get_prop soul (js ''identity'')) then NAME_REQUIRED_ERROR
         else IDENTITY_MISSING_ERROR)
    \<and> str_includes NAME_REQUIRED_ERROR (js ''identity.name'')
    \<and> \<not> str_includes IDENTITY_MISSING_ERROR (js ''identity.name'')"
proof -
  let ?v = "validateSoulPayload (Some soul)"
  let ?first = "if truthy_opt (get_prop soul (js ''identity'')) then NAME_REQUIRED_ERROR
         else IDENTITY_MISSING_ERROR"
  have i: "identity_errors soul = [?first]"
    using assms(3) by (simp add: identity_errors_def)
  obtain w where "scan_patterns FORBIDDEN_PATTERNS (JSON_stringify soul) (identity_errors soul)
      = identity_errors soul @ w"
    using scan_patterns_extends by blast
  then have e: "errors ?v = ?first # w @ size_errors (byteLength (JSON_stringify soul))"
    by (simp add: validate_errors [OF assms(1,2)] i)
  then have "errors ?v \<noteq> []" and "hd (errors ?v) = ?first" by simp_all
  moreover from this have "\<not> valid ?v" by (simp add: validate_valid [OF assms(1,2)])
  ultimately show ?thesis
    using name_required_mentions identity_missing_does_not_mention by blast
qed

theorem missing_name_rejected_witness:
  "truthy soul_without_name \<and> typeof_object soul_without_name
   \<and> truthy_opt (get_prop soul_without_name (js ''identity''))
   \<and> \<not> truthy_opt (get_prop_opt (get_prop soul_without_name (js ''identity'')) (js ''name''))
   \<and> \<not> valid (validateSoulPayload (Some soul_without_name))
   \<and> errors (validateSoulPayload (Some soul_without_name)) \<noteq> []
   \<and> hd (errors (validateSoulPayload (Some soul_without_name))) = NAME_REQUIRED_ERROR
   \<and> str_includes NAME_REQUIRED_ERROR (js ''identity.name'')"
proof -
  have h1: "truthy soul_without_name" and h2: "typeof_object soul_without_name"
    by (simp_all add: soul_without_name_def)
  have h3: "truthy_opt (get_prop soul_without_name (js ''identity''))"
    by (simp add: soul_without_name_def)
  have h4: "\<not> truthy_opt (get_prop_opt (get_prop soul_without_name (js ''identity''))
      (js ''name''))"
    by (simp add: soul_without_name_def js_def)
  from missing_name_rejected [OF h1 h2 h4] h1 h2 h3 h4 show ?thesis by simp
qed

text \<open>
  The claim as the specification states it fails on a document without \<open>identity\<close>: the
  validator rejects it with one problem, whose text does not contain \<open>identity.name\<close>.
\<close>

theorem missing_identity_counterexample:
  "truthy soul_without_identity \<and> typeof_object soul_without_identity
   \<and> get_prop soul_without_identity (js ''identity'') = None
   \<and> \<not> valid (validateSoulPayload (Some soul_without_identity))
   \<and> errors (validateSoulPayload (Some soul_without_identity)) = [IDENTITY_MISSING_ERROR]
   \<and> \<not> str_includes IDENTITY_MISSING_ERROR (js ''identity.name'')"
proof -
  have h1: "truthy soul_without_identity" and h2: "typeof_object soul_without_identity"
    by (simp_all add: soul_without_identity_def)
  have h3: "get_prop soul_without_identity (js ''identity'') = None"
    by (simp add: soul_without_identity_def js_def)
  have s: "JSON_stringify soul_without_identity = js ''{\"personality\":\"calm\"}''"
    by (simp add: soul_without_identity_def JSON_stringify_def wrap_def QuoteJSONString_def
      quote_unit_def is_lead_def is_trail_def js_def)
  have "\<not> (\<exists>p \<in> set FORBIDDEN_PATTERNS. RegExp_test p (JSON_stringify soul_without_identity))"
    unfolding s by (simp add: regexp_simps)
  then have c: "scan_patterns FORBIDDEN_PATTERNS (JSON_stringify soul_without_identity)
      [IDENTITY_MISSING_ERROR] = [IDENTITY_MISSING_ERROR]"
    by (rule scan_patterns_no_match)
  have i: "identity_errors soul_without_identity = [IDENTITY_MISSING_ERROR]"
    by (simp add: identity_errors_def h3)
  have z: "size_errors (byteLength (JSON_stringify soul_without_identity)) = []"
    unfolding s by (simp add: size_errors_def js_def)
  have e: "errors (validateSoulPayload (Some soul_without_identity)) = [IDENTITY_MISSING_ERROR]"
    by (simp add: validate_errors [OF h1 h2] i c z)
  then have "\<not> valid (validateSoulPayload (Some soul_without_identity))"
    by (simp add: validate_valid [OF h1 h2])
  with h1 h2 h3 e identity_missing_does_not_mention show ?thesis by blast
qed

subsection \<open>The files projection\<close>


lemma get_prop_Some_object: "get_prop v k = Some x \<Longrightarrow> \<exists>kvs. v = JObj kvs"
  by (cases v) simp_all







text \<open>
  When the projection returns. The loops throw on a \<open>null\<close> entry, and a template throws
  on a value without a string conversion; nothing else in \<open>soulToFiles\<close> does.
\<close>

lemma daily_log_files_returns:
  assumes "\<forall>log \<in> set logs. log \<noteq> JNull
    \<and> (\<forall>d. get_prop log (js ''date'') = Some d \<and> truthy d \<longrightarrow> (\<exists>s. ToString d = Inr s))"
  shows "\<exists>fs. daily_log_files logs = Inr fs"
  using assms
proof (induction logs)
  case Nil
  then show ?case by simp
next
  case (Cons log logs)
  then obtain fs where fs: "daily_log_files logs = Inr fs" by auto
  from Cons.prems have n: "log \<noteq> JNull"
    and d: "\<forall>d. get_prop log (js ''date'') = Some d \<and> truthy d \<longrightarrow> (\<exists>s. ToString d = Inr s)"
    by auto
  have "\<exists>out. daily_log_entry log = Inr out"
  proof (cases "get_prop log (js ''date'')")
    case None
    with n show ?thesis by (cases log) (simp_all add: daily_log_entry_def)
  next
    case (Some date)
    show ?thesis
    proof (cases "truthy date")
      case False
      with Some n show ?thesis
        by (cases log) (auto simp add: daily_log_entry_def split: option.splits)
    next
      case True
      with d Some obtain s where "ToString date = Inr s" by blast
      with Some n show ?thesis
        by (cases log) (auto simp add: daily_log_entry_def split: option.splits)
    qed
  qed
  with fs show ?case by auto
qed

lemma extra_files_returns: "JNull \<notin> set fs \<Longrightarrow> \<exists>out. extra_files fs = Inr out"
proof (induction fs)
  case Nil
  then show ?case by simp
next
  case (Cons f fs)
  then obtain out where "extra_files fs = Inr out" by auto
  moreover from Cons.prems have "f \<noteq> JNull" by auto
  then have "\<exists>e. extra_file_entry f = Inr e"
    by (cases f) (auto simp add: extra_file_entry_def split: option.splits)
  ultimately show ?case by auto
qed

lemma memory_files_returns:
  assumes "\<forall>log \<in> set (visited_logs soul). log \<noteq> JNull
    \<and> (\<forall>d. get_prop log (js ''date'') = Some d \<and> truthy d \<longrightarrow> (\<exists>s. ToString d = Inr s))"
  shows "\<exists>fs. memory_files soul = Inr fs"
proof (cases "get_prop soul (js ''memory'')")
  case None
  then show ?thesis by (simp add: memory_files_def)
next
  case (Some m)
  show ?thesis
  proof (cases "truthy m \<and> \<not> is_JStr m")
    case False
    with Some show ?thesis by (cases m) (auto simp add: memory_files_def)
  next
    case True
    show ?thesis
    proof (cases "\<exists>logs. get_prop m (js ''daily_logs'') = Some (JArr logs)")
      case False
      with Some True show ?thesis
        by (cases m) (auto simp add: memory_files_def Let_def split: option.splits json.splits)
    next
      case yes: True
      then obtain logs where logs: "get_prop m (js ''daily_logs'') = Some (JArr logs)" by blast
      with Some True have "visited_logs soul = logs" by (simp add: visited_logs_def)
      with assms obtain fs where "daily_log_files logs = Inr fs"
        using daily_log_files_returns [of logs] by blast
      with Some True logs show ?thesis
        by (cases m) (auto simp add: memory_files_def Let_def)
    qed
  qed
qed

lemma additional_files_returns:
  assumes "JNull \<notin> set (visited_files soul)"
  shows "\<exists>fs. additional_files soul = Inr fs"
proof (cases "\<exists>fs. get_prop soul (js ''files'') = Some (JArr fs)")
  case False
  then show ?thesis
    by (auto simp add: additional_files_def split: option.splits json.splits)
next
  case True
  then obtain fs where fs: "get_prop soul (js ''files'') = Some (JArr fs)" by blast
  with assms have "JNull \<notin> set fs" by (simp add: visited_files_def)
  then obtain out where "extra_files fs = Inr out" using extra_files_returns by blast
  with fs show ?thesis by (simp add: additional_files_def)
qed

lemma identity_files_returns:
  assumes "get_prop soul (js ''identity'') = Some idn"
    and "get_prop idn (js ''name'') = Some (JStr nm)"
    and "\<forall>d. get_prop idn (js ''description'') = Some d \<and> truthy d \<longrightarrow> (\<exists>s. ToString d = Inr s)"
  shows "\<exists>ident. identity_files soul = Inr ident"
proof -
  obtain kvs where k: "idn = JObj kvs" using get_prop_Some_object [OF assms(2)] by blast
  have "\<exists>c. identity_content idn = Inr c"
  proof (cases "get_prop idn (js ''description'')")
    case None
    with k assms(2) show ?thesis by (simp add: identity_content_def)
  next
    case (Some d)
    show ?thesis
    proof (cases "truthy d")
      case False
      with k assms(2) Some show ?thesis by (simp add: identity_content_def)
    next
      case True
      with assms(3) Some obtain s where "ToString d = Inr s" by blast
      with k assms(2) Some True show ?thesis by (simp add: identity_content_def)
    qed
  qed
  with k assms(1) show ?thesis by (auto simp add: identity_files_def)
qed

lemma soulToFiles_returns:
  assumes "get_prop soul (js ''identity'') = Some idn"
    and "get_prop idn (js ''name'') = Some (JStr nm)"
    and "\<forall>d. get_prop idn (js ''description'') = Some d \<and> truthy d \<longrightarrow> (\<exists>s. ToString d = Inr s)"
    and "\<forall>log \<in> set (visited_logs soul). log \<noteq> JNull
      \<and> (\<forall>d. get_prop log (js ''date'') = Some d \<and> truthy d \<longrightarrow> (\<exists>s. ToString d = Inr s))"
    and "JNull \<notin> set (visited_files soul)"
  shows "\<exists>files. soulToFiles soul = Inr files"
proof -
  obtain ident where "identity_files soul = Inr ident"
    using identity_files_returns [OF assms(1,2,3)] by blast
  moreover obtain mem where "memory_files soul = Inr mem"
    using memory_files_returns [OF assms(4)] by blast
  moreover obtain extra where "additional_files soul = Inr extra"
    using additional_files_returns [OF assms(5)] by blast
  ultimately show ?thesis by (simp add: soulToFiles_def)
qed

text \<open>
  A description that is an object with an own \<open>toString\<close> ends the projection with the
  TypeError of the template.
\<close>

lemma unprintable_description_throws:
  "soulToFiles (JObj [(js ''identity'',
       JObj [(js ''name'', JStr (js ''Echo'')), (js ''description'', unprintable)]),
     (js ''personality'', JStr (js ''calm''))]) = Inl CANNOT_CONVERT"
  by (simp add: soulToFiles_def identity_files_def identity_content_def unprintable_def
      js_def)

subsection \<open>Retrieval\<close>

lemma salvage_not_found_includes: "str_includes (SALVAGE_NOT_FOUND txId) (js ''not found'')"
  unfolding SALVAGE_NOT_FOUND_def
  using str_includes_append [of "js ''Salvage ''" "js ''not found''" "js '': '' @ txId"]
  by (simp add: js_def)

lemma invalid_soul_is_not_not_found: "\<not> is_not_found (Error INVALID_SOUL)"
  by (simp add: is_not_found_def Error_def INVALID_SOUL_def js_def startsWith_def)

lemma invalid_soul_differs: "Error INVALID_SOUL \<noteq> Error (SALVAGE_NOT_FOUND txId)"
  by (simp add: Error_def INVALID_SOUL_def SALVAGE_NOT_FOUND_def js_def)

lemma fetch_salvage_found:
  "fetch_salvage g txId = Inr data \<Longrightarrow>
   get_prop data (js ''status'') = Some (JStr (js ''found''))"
  by (auto simp add: fetch_salvage_def js_def split: sum.splits)

lemma found_is_not_demo: "JStr (js ''found'') \<noteq> JStr (js ''demo'')"
  by (simp add: js_def)

text \<open>
  C6, as the code has it. For an identifier that is no placeholder (it does not start
  with \<open>demo-\<close>): when the lookup in the store throws an error that the client marks as
  not found (type \<open>TX_NOT_FOUND\<close>, or a message that contains \<open>not found\<close>),
  \<open>retrieveSalvage\<close> throws \<open>Salvage not found: <id>\<close> and the retrieval endpoint answers
  404; when the lookup returns an envelope without a truthy \<open>soul\<close>, \<open>reviveFromSalvage\<close>
  throws \<open>Salvage does not contain a valid soul\<close>, which is another error than the
  not-found one and is not taken for it, and the revival endpoint reports it with
  status 500.
\<close>

theorem retrieval_failures_are_told_apart:
  "(\<not> is_demo_id txId \<and> fetch_salvage g txId = Inl err \<and> is_not_found err \<longrightarrow>
      retrieveSalvage g txId = Inl (Error (SALVAGE_NOT_FOUND txId))
      \<and> get_salvage g txId = Response 404 (error_body (js ''Salvage not found'')))
   \<and> (\<not> is_demo_id txId \<and> fetch_salvage g txId = Inr data
        \<and> \<not> truthy_opt (get_prop_opt (get_prop data (js ''payload'')) (js ''soul'')) \<longrightarrow>
      reviveFromSalvage g txId fmt = Inl (Error INVALID_SOUL)
      \<and> \<not> is_not_found (Error INVALID_SOUL)
      \<and> Error INVALID_SOUL \<noteq> Error (SALVAGE_NOT_FOUND txId)
      \<and> (txId \<noteq> [] \<longrightarrow> post_revive g txId fmt_opt = Response 500 (error_body INVALID_SOUL)))"
proof (intro conjI impI)
  assume a: "\<not> is_demo_id txId \<and> fetch_salvage g txId = Inl err \<and> is_not_found err"
  then show r: "retrieveSalvage g txId = Inl (Error (SALVAGE_NOT_FOUND txId))"
    by (simp add: retrieveSalvage_def)
  show "get_salvage g txId = Response 404 (error_body (js ''Salvage not found''))"
    using salvage_not_found_includes [of txId] by (simp add: get_salvage_def r Error_def)
next
  assume b: "\<not> is_demo_id txId \<and> fetch_salvage g txId = Inr data
        \<and> \<not> truthy_opt (get_prop_opt (get_prop data (js ''payload'')) (js ''soul''))"
  then have r: "retrieveSalvage g txId = Inr data" by (simp add: retrieveSalvage_def)
  have st: "get_prop data (js ''status'') \<noteq> Some (JStr (js ''demo''))"
    using fetch_salvage_found [of g txId data] b found_is_not_demo by simp
  show v: "reviveFromSalvage g txId fmt = Inl (Error INVALID_SOUL)" for fmt
    using b st by (auto simp add: reviveFromSalvage_def r Let_def split: option.splits)
  show "\<not> is_not_found (Error INVALID_SOUL)" by (rule invalid_soul_is_not_not_found)
  show "Error INVALID_SOUL \<noteq> Error (SALVAGE_NOT_FOUND txId)" by (rule invalid_soul_differs)
  assume "txId \<noteq> []"
  then show "post_revive g txId fmt_opt = Response 500 (error_body INVALID_SOUL)"
    by (simp add: post_revive_def v internal_error_def Error_def error_body_def)
qed

lemma tx1_is_not_demo: "\<not> is_demo_id tx1" "tx1 \<noteq> []"
  by (simp_all add: is_demo_id_def startsWith_def tx1_def js_def)

theorem retrieval_failures_are_told_apart_witness:
  "\<not> is_demo_id tx1
   \<and> fetch_salvage empty_store tx1 = Inl tx_not_found
   \<and> is_not_found tx_not_found
   \<and> retrieveSalvage empty_store tx1 = Inl (Error (SALVAGE_NOT_FOUND tx1))
   \<and> get_salvage empty_store tx1 = Response 404 (error_body (js ''Salvage not found''))
   \<and> fetch_salvage foreign_store tx1 =
        Inr (JObj [(js ''status'', JStr (js ''found'')),
                   (js ''tx_id'', JStr tx1),
                   (js ''arweave_url'', JStr (arweave_url tx1)),
                   (js ''tags'', JObj [(js ''Content-Type'', JStr (js ''application/json''))]),
                   (js ''payload'', JObj [(js ''hello'', JStr (js ''world''))])])
   \<and> reviveFromSalvage foreign_store tx1 (JStr (js ''files'')) = Inl (Error INVALID_SOUL)
   \<and> post_revive foreign_store tx1 (Some (JStr (js ''files''))) =
        Response 500 (error_body INVALID_SOUL)"
proof -
  let ?data = "JObj [(js ''status'', JStr (js ''found'')),
                   (js ''tx_id'', JStr tx1),
                   (js ''arweave_url'', JStr (arweave_url tx1)),
                   (js ''tags'', JObj [(js ''Content-Type'', JStr (js ''application/json''))]),
                   (js ''payload'', JObj [(js ''hello'', JStr (js ''world''))])]"
  have e1: "fetch_salvage empty_store tx1 = Inl tx_not_found"
    by (simp add: fetch_salvage_def empty_store_def)
  have e2: "is_not_found tx_not_found"
    by (simp add: is_not_found_def tx_not_found_def)
  have f1: "fetch_salvage foreign_store tx1 = Inr ?data"
    by (simp add: fetch_salvage_def foreign_store_def tags_object_def)
  have f2: "\<not> truthy_opt (get_prop_opt (get_prop ?data (js ''payload'')) (js ''soul''))"
    by (simp add: js_def)
  from retrieval_failures_are_told_apart [of tx1 empty_store tx_not_found]
    retrieval_failures_are_told_apart [of tx1 foreign_store _ ?data "JStr (js ''files'')"
      "Some (JStr (js ''files''))"]
    tx1_is_not_demo e1 e2 f1 f2
  show ?thesis by simp
qed

text \<open>
  The claim as the specification states it fails on a placeholder identifier: the store
  holds no such transaction, and the retrieval endpoint answers 200 with the demo notice.
\<close>

theorem placeholder_id_counterexample:
  "fetch_salvage empty_store demo_id = Inl tx_not_found
   \<and> is_not_found tx_not_found
   \<and> get_salvage empty_store demo_id =
       Response 200
         (JObj [(js ''success'', JBool True),
                (js ''status'', JStr (js ''demo'')),
                (js ''message'', JStr (js ''This is a demo salvage '' @ [8212] @
                      js '' no data was written to Arweave'')),
                (js ''tx_id'', JStr demo_id)])"
proof -
  have e1: "fetch_salvage empty_store demo_id = Inl tx_not_found"
    by (simp add: fetch_salvage_def empty_store_def)
  have e2: "is_not_found tx_not_found"
    by (simp add: is_not_found_def tx_not_found_def)
  have d: "is_demo_id demo_id"
    by (simp add: is_demo_id_def startsWith_def demo_id_def js_def)
  have "get_salvage empty_store demo_id =
       Response 200
         (JObj [(js ''success'', JBool True),
                (js ''status'', JStr (js ''demo'')),
                (js ''message'', JStr (js ''This is a demo salvage '' @ [8212] @
                      js '' no data was written to Arweave'')),
                (js ''tx_id'', JStr demo_id)])"
    by (simp add: get_salvage_def retrieveSalvage_def d) (simp add: js_def)
  with e1 e2 show ?thesis by simp
qed

subsection \<open>The free-tier quota\<close>











end
